theory Spec2Isabelle
  imports Complex_Main "HOL-Library.AList"
begin

section \<open>JavaScript values used by the core\<close>

text \<open>
  A JavaScript number that may be \<open>NaN\<close>. Arithmetic on \<open>NaN\<close> gives \<open>NaN\<close>, every
  comparison with \<open>NaN\<close> is false. Finite numbers are idealised: integers as \<open>int\<close>,
  fractions as \<open>real\<close>.
\<close>

datatype 'a number = NaN | Num 'a

fun num_add :: "'a::plus number \<Rightarrow> 'a number \<Rightarrow> 'a number" where
  "num_add (Num a) (Num b) = Num (a + b)"
| "num_add _ _ = NaN"

fun num_gt :: "'a::ord number \<Rightarrow> 'a number \<Rightarrow> bool" where
  "num_gt (Num a) (Num b) = (a > b)"
| "num_gt _ _ = False"

fun num_lt :: "'a::ord number \<Rightarrow> 'a number \<Rightarrow> bool" where
  "num_lt (Num a) (Num b) = (a < b)"
| "num_lt _ _ = False"

text \<open>\<open>x || 0\<close> on a number: \<open>NaN\<close> and \<open>0\<close> are falsy.\<close>

fun or_zero :: "'a::zero number \<Rightarrow> 'a number" where
  "or_zero NaN = Num 0"
| "or_zero (Num a) = Num a"

text \<open>
  A stored timestamp field: \<open>null\<close>, a string that dayjs parses to an instant (given here
  as milliseconds since the epoch, the string being the ISO-8601 text of that instant), or
  a string that dayjs rejects.
\<close>

datatype tstamp = TNull | Iso int | Junk string

text \<open>JavaScript truthiness of such a field: \<open>null\<close> and the empty string are falsy.\<close>

fun truthy :: "tstamp \<Rightarrow> bool" where
  "truthy TNull = False"
| "truthy (Iso _) = True"
| "truthy (Junk s) = (s \<noteq> [])"

text \<open>
  \<open>dayjs.utc(x)\<close>: the instant, or \<open>None\<close> for an invalid date (\<open>dayjs.utc(null)\<close> is
  invalid).
\<close>

fun utc :: "tstamp \<Rightarrow> int option" where
  "utc TNull = None"
| "utc (Iso ms) = Some ms"
| "utc (Junk _) = None"

text \<open>
  \<open>a.diff(b, unit)\<close> of dayjs, for two UTC values: the difference in milliseconds divided
  by the unit and truncated towards zero; \<open>NaN\<close> when \<open>b\<close> is invalid. \<open>a\<close> is always
  \<open>dayjs.utc()\<close>, the current instant, in this program.
\<close>

definition absFloor :: "int \<Rightarrow> int \<Rightarrow> int" where
  "absFloor d unit = (if d < 0 then - ((- d) div unit) else d div unit)"

definition diff_unit :: "int \<Rightarrow> int \<Rightarrow> int option \<Rightarrow> int number" where
  "diff_unit unit a b = (case b of None \<Rightarrow> NaN | Some t \<Rightarrow> Num (absFloor (a - t) unit))"

definition diff_minute :: "int \<Rightarrow> int option \<Rightarrow> int number" where
  "diff_minute = diff_unit 60000"

text \<open>\<open>a.diff(b, 'hours', true)\<close>: the untruncated difference in hours.\<close>

definition diff_hours_float :: "int \<Rightarrow> int option \<Rightarrow> real number" where
  "diff_hours_float a b = (case b of None \<Rightarrow> NaN | Some t \<Rightarrow> Num (real_of_int (a - t) / 3600000))"

definition isAfter :: "int \<Rightarrow> int option \<Rightarrow> bool" where
  "isAfter a b = (case b of None \<Rightarrow> False | Some t \<Rightarrow> a > t)"

definition isBefore :: "int \<Rightarrow> int option \<Rightarrow> bool" where
  "isBefore a b = (case b of None \<Rightarrow> False | Some t \<Rightarrow> a < t)"

subsection \<open>Numbers as text\<close>

definition digit_char :: "nat \<Rightarrow> char" where
  "digit_char d = char_of (48 + d)"

fun show_nat :: "nat \<Rightarrow> string" where
  "show_nat n = (if n < 10 then [digit_char n] else show_nat (n div 10) @ [digit_char (n mod 10)])"

declare show_nat.simps [simp del]

definition show_int :: "int \<Rightarrow> string" where
  "show_int i = (if i < 0 then CHR ''-'' # show_nat (nat (- i)) else show_nat (nat i))"

text \<open>Template interpolation \<open>${n}\<close> of a number.\<close>

fun show_number :: "int number \<Rightarrow> string" where
  "show_number NaN = ''NaN''"
| "show_number (Num i) = show_int i"

subsection \<open>Strings\<close>

fun startsWith :: "string \<Rightarrow> string \<Rightarrow> bool" where
  "startsWith _ [] = True"
| "startsWith [] (_ # _) = False"
| "startsWith (c # cs) (d # ds) = (c = d \<and> startsWith cs ds)"

text \<open>\<open>s.includes(sub)\<close>.\<close>

fun str_includes :: "string \<Rightarrow> string \<Rightarrow> bool" where
  "str_includes [] sub = (sub = [])"
| "str_includes (c # cs) sub = (startsWith (c # cs) sub \<or> str_includes cs sub)"

text \<open>Whitespace removed by \<open>trim\<close> (the ASCII part of it).\<close>

definition isSpace :: "char \<Rightarrow> bool" where
  "isSpace c = (c \<in> {CHR '' '', CHR 0x09, CHR 0x0A, CHR 0x0B, CHR 0x0C, CHR 0x0D})"

definition trim :: "string \<Rightarrow> string" where
  "trim s = rev (dropWhile isSpace (rev (dropWhile isSpace s)))"

section \<open>The location validator (util/locationValidation.ts)\<close>

record EmployeeCurrentLocation =
  latitude :: real
  longitude :: real
  accuracy :: "real option"
  heading :: "real option"
  speed :: "real option"
  source :: string
  isLive :: bool
  updatedAt :: tstamp
  liveMessageId :: string
  liveChatId :: string
  liveUntil :: tstamp
  endedAt :: tstamp

text \<open>
  The \<open>currentLocation\<close> field of an employee document: \<open>null\<close>, a full record as the
  ingestion path writes it, or the two-field map \<open>{isLive: false, endedAt: ts}\<close> that the
  sweeper's field-path update leaves on a document that had no \<open>currentLocation\<close>.
\<close>

datatype curloc = Absent | Shared EmployeeCurrentLocation | FinalizedOnly int

record LocationValidationResult =
  isValid :: bool
  error :: "string option"
  res_accuracy :: "real option"
  coordinates :: "(real \<times> real) option"
  locationAge :: "int number option"
  res_isLive :: "bool option"

text \<open>The messages of the validator, under the names the specification gives their kinds.\<close>

definition NO_LOCATION :: string where
  "NO_LOCATION = ''No location data available. Please share your location first.''"

definition SHARING_ENDED :: string where
  "SHARING_ENDED = ''Location sharing has ended. Please share your location again.''"

definition STALE_LOCATION :: "int number \<Rightarrow> string" where
  "STALE_LOCATION ageMinutes =
     ''Location data is too old ('' @ show_number ageMinutes @ '' minutes). Please update your location.''"

definition LIVE_EXPIRED :: string where
  "LIVE_EXPIRED = ''Live location sharing has expired. Please share your location again.''"

definition BAD_WORKING_AREA :: string where
  "BAD_WORKING_AREA = ''Invalid working area configuration. Please contact your administrator.''"

definition OUTSIDE_AREA :: string where
  "OUTSIDE_AREA = ''You are outside your designated working area. Clock in/out is only allowed within your assigned work location.''"

definition NOT_LIVE :: string where
  "NOT_LIVE = ''Location sharing is not active. Please share your live location.''"

definition noLocationResult :: LocationValidationResult where
  "noLocationResult =
     \<lparr>isValid = False, error = Some NO_LOCATION, res_accuracy = None, coordinates = None,
      locationAge = None, res_isLive = None\<rparr>"

definition sharingEndedResult :: LocationValidationResult where
  "sharingEndedResult =
     \<lparr>isValid = False, error = Some SHARING_ENDED, res_accuracy = None, coordinates = None,
      locationAge = None, res_isLive = None\<rparr>"

text \<open>\<open>employeeLocation.accuracy || 0\<close>.\<close>

definition accuracyOrZero :: "EmployeeCurrentLocation \<Rightarrow> real" where
  "accuracyOrZero l = (case accuracy l of None \<Rightarrow> 0 | Some a \<Rightarrow> a)"

text \<open>
  \<open>validateEmployeeLocation\<close> (lines 25-94); \<open>now\<close> is the instant read by \<open>dayjs.utc()\<close>.
\<close>

definition validateEmployeeLocation :: "int \<Rightarrow> curloc \<Rightarrow> int \<Rightarrow> LocationValidationResult" where
  "validateEmployeeLocation now employeeLocation maxAgeMinutes =
     (case employeeLocation of
        Absent \<Rightarrow> noLocationResult
      | FinalizedOnly ts \<Rightarrow> sharingEndedResult
      | Shared l \<Rightarrow>
          if truthy (endedAt l) then sharingEndedResult
          else
            let ageMinutes = diff_minute now (utc (updatedAt l)) in
            if num_gt ageMinutes (Num maxAgeMinutes) then
              \<lparr>isValid = False, error = Some (STALE_LOCATION ageMinutes), res_accuracy = None,
               coordinates = None, locationAge = Some ageMinutes,
               res_isLive = (if isLive l then Some True else None)\<rparr>
            else if isLive l \<and> truthy (liveUntil l) \<and> isAfter now (utc (liveUntil l)) then
              \<lparr>isValid = False, error = Some LIVE_EXPIRED, res_accuracy = None,
               coordinates = None, locationAge = Some ageMinutes, res_isLive = Some False\<rparr>
            else
              \<lparr>isValid = True, error = None, res_accuracy = Some (accuracyOrZero l),
               coordinates = Some (longitude l, latitude l), locationAge = Some ageMinutes,
               res_isLive = (if isLive l then Some True else None)\<rparr>)"

text \<open>\<open>hasValidLocation\<close> (lines 332-363).\<close>

definition hasValidLocation :: "int \<Rightarrow> curloc \<Rightarrow> int \<Rightarrow> bool" where
  "hasValidLocation now employeeLocation maxAgeMinutes =
     (case employeeLocation of
        Absent \<Rightarrow> False
      | FinalizedOnly ts \<Rightarrow> False
      | Shared l \<Rightarrow>
          if truthy (endedAt l) then False
          else
            let ageMinutes = diff_minute now (utc (updatedAt l)) in
            if num_gt ageMinutes (Num maxAgeMinutes) then False
            else if (isLive l \<and> truthy (liveUntil l)) \<and> isAfter now (utc (liveUntil l)) then False
            else True)"

subsection \<open>Polygon engine\<close>

text \<open>What \<open>JSON.parse\<close> returns.\<close>

datatype json = JNull | JBool bool | JNum real | JStr string | JArr "json list"
  | JObj "(string \<times> json) list"

text \<open>
  The checks of \<open>parseWorkingArea\<close> on one coordinate, one ring and one polygon: an array
  of exactly two numbers; an array of at least three coordinates; a non-empty array of
  rings. \<open>None\<close> is the source's \<open>return null\<close>.
\<close>

definition coordOf :: "json \<Rightarrow> real list option" where
  "coordOf coord = (case coord of JArr [JNum a, JNum b] \<Rightarrow> Some [a, b] | _ \<Rightarrow> None)"

definition ringOf :: "json \<Rightarrow> real list list option" where
  "ringOf ring =
     (case ring of
        JArr cs \<Rightarrow> if length cs < 3 then None else those (map coordOf cs)
      | _ \<Rightarrow> None)"

definition polygonOf :: "json \<Rightarrow> real list list list option" where
  "polygonOf polygon =
     (case polygon of
        JArr rs \<Rightarrow> if length rs = 0 then None else those (map ringOf rs)
      | _ \<Rightarrow> None)"

text \<open>
  The test that selects the single-polygon branch:
  \<open>parsed.length === 1 && Array.isArray(parsed[0]) && parsed[0].length > 0 &&
  Array.isArray(parsed[0][0])\<close>.
\<close>

definition looksLikeSinglePolygon :: "json list \<Rightarrow> bool" where
  "looksLikeSinglePolygon parsed = (case parsed of [JArr (JArr _ # _)] \<Rightarrow> True | _ \<Rightarrow> False)"

text \<open>
  \<open>parseWorkingArea\<close> (lines 101-145). \<open>JSON_parse\<close> is the runtime's \<open>JSON.parse\<close>, \<open>None\<close> when it
  throws (the \<open>catch\<close> returns \<open>null\<close>).
\<close>

definition parseWorkingArea :: "(string \<Rightarrow> json option) \<Rightarrow> string \<Rightarrow> real list list list list option" where
  "parseWorkingArea JSON_parse workingArea =
     (case JSON_parse workingArea of
        None \<Rightarrow> None
      | Some parsed \<Rightarrow>
          (case parsed of
             JArr ps \<Rightarrow>
               if length ps = 0 then None
               else
                 let polygons = (if looksLikeSinglePolygon ps then [parsed] else ps)
                 in those (map polygonOf polygons)
           | _ \<Rightarrow> None))"

text \<open>
  One step of the ray-casting loop of \<open>isPointInPolygon\<close> (lines 153-172), for the index \<open>i\<close>; \<open>j\<close> is
  \<open>polygon.length - 1\<close> at \<open>i = 0\<close> and the previous \<open>i\<close> afterwards.
\<close>

definition rayStep :: "real \<times> real \<Rightarrow> (real \<times> real) list \<Rightarrow> bool \<Rightarrow> nat \<Rightarrow> bool" where
  "rayStep point polygon inside i =
     (let (x, y) = point;
          j = (if i = 0 then length polygon - 1 else i - 1);
          (xi, yi) = polygon ! i;
          (xj, yj) = polygon ! j
      in if ((yi > y) \<noteq> (yj > y)) \<and> (x < (xj - xi) * (y - yi) / (yj - yi) + xi)
         then \<not> inside else inside)"

definition isPointInPolygon :: "real \<times> real \<Rightarrow> (real \<times> real) list \<Rightarrow> bool" where
  "isPointInPolygon point polygon = foldl (rayStep point polygon) False [0..<length polygon]"

text \<open>
  The re-validation of the outer ring inside \<open>isPointInMultiPolygon\<close> (lines 180-203); only
  the first ring of a polygon is looked at.
\<close>

definition validatedRingOf :: "real list list \<Rightarrow> (real \<times> real) list option" where
  "validatedRingOf outerRing =
     those (map (\<lambda>coord. case coord of [a, b] \<Rightarrow> Some (a, b) | _ \<Rightarrow> None) outerRing)"

fun isPointInMultiPolygon :: "real \<times> real \<Rightarrow> real list list list list \<Rightarrow> bool" where
  "isPointInMultiPolygon point [] = False"
| "isPointInMultiPolygon point (polygon # rest) =
     (case polygon of
        [] \<Rightarrow> isPointInMultiPolygon point rest
      | outerRing # _ \<Rightarrow>
          if length outerRing > 0 then
            (case validatedRingOf outerRing of
               None \<Rightarrow> False
             | Some validatedRing \<Rightarrow>
                 if isPointInPolygon point validatedRing then True
                 else isPointInMultiPolygon point rest)
          else isPointInMultiPolygon point rest)"

subsection \<open>Validation against the working area\<close>

text \<open>
  The effective live flag:
  \<open>isLive && (!liveUntil || now.isBefore(dayjs.utc(liveUntil)))\<close>.
\<close>

definition effectiveIsLive :: "int \<Rightarrow> EmployeeCurrentLocation \<Rightarrow> bool" where
  "effectiveIsLive now l = (isLive l \<and> (\<not> truthy (liveUntil l) \<or> isBefore now (utc (liveUntil l))))"

text \<open>
  \<open>validateEmployeeLocationAndArea\<close> (lines 219-324). The time zone argument of the source only feeds a
  log line and is left out.
\<close>

definition validateEmployeeLocationAndArea ::
  "(string \<Rightarrow> json option) \<Rightarrow> int \<Rightarrow> curloc \<Rightarrow> string \<Rightarrow> int \<Rightarrow> LocationValidationResult" where
  "validateEmployeeLocationAndArea JSON_parse now employeeLocation workingArea maxAgeMinutes =
     (case employeeLocation of
        Absent \<Rightarrow> noLocationResult
      | FinalizedOnly ts \<Rightarrow> sharingEndedResult
      | Shared l \<Rightarrow>
          if truthy (endedAt l) then sharingEndedResult
          else
            let ageMinutes = diff_minute now (utc (updatedAt l)) in
            if effectiveIsLive now l then
              (let coords = (longitude l, latitude l) in
               case parseWorkingArea JSON_parse workingArea of
                 None \<Rightarrow>
                   \<lparr>isValid = False, error = Some BAD_WORKING_AREA,
                    res_accuracy = Some (accuracyOrZero l), coordinates = Some coords,
                    locationAge = Some ageMinutes, res_isLive = Some True\<rparr>
               | Some parsedArea \<Rightarrow>
                   if \<not> isPointInMultiPolygon coords parsedArea then
                     \<lparr>isValid = False, error = Some OUTSIDE_AREA,
                      res_accuracy = Some (accuracyOrZero l), coordinates = Some coords,
                      locationAge = Some ageMinutes, res_isLive = Some True\<rparr>
                   else
                     \<lparr>isValid = True, error = None,
                      res_accuracy = Some (accuracyOrZero l), coordinates = Some coords,
                      locationAge = Some ageMinutes, res_isLive = Some True\<rparr>)
            else if num_gt ageMinutes (Num maxAgeMinutes) then
              \<lparr>isValid = False, error = Some (STALE_LOCATION ageMinutes), res_accuracy = None,
               coordinates = None, locationAge = Some ageMinutes, res_isLive = Some False\<rparr>
            else
              \<lparr>isValid = False, error = Some NOT_LIVE,
               res_accuracy = Some (accuracyOrZero l),
               coordinates = Some (longitude l, latitude l),
               locationAge = Some ageMinutes, res_isLive = Some False\<rparr>)"

section \<open>Dates, array indices and key parsing\<close>

text \<open>
  \<open>.date()\<close> of a UTC dayjs value: the day of the month of the instant in the proleptic
  Gregorian calendar (computed from the day count since 1970-01-01), \<open>NaN\<close> for an invalid
  date.
\<close>

definition dayOfMonth :: "int \<Rightarrow> int" where
  "dayOfMonth ms =
     (let z = ms div 86400000 + 719468;
          doe = z mod 146097;
          yoe = (doe - doe div 1460 + doe div 36524 - doe div 146096) div 365;
          doy = doe - (365 * yoe + yoe div 4 - yoe div 100);
          mp = (5 * doy + 2) div 153
      in doy - (153 * mp + 2) div 5 + 1)"

definition date :: "int option \<Rightarrow> int number" where
  "date d = (case d of None \<Rightarrow> NaN | Some ms \<Rightarrow> Num (dayOfMonth ms))"

text \<open>
  A JavaScript array whose elements may be holes (\<open>undefined\<close>) or \<open>null\<close>: both read as
  \<open>None\<close>. Reading at an index that is \<open>NaN\<close>, negative or past the end gives \<open>undefined\<close>.
  Assigning at an index past the end extends the array with holes; assigning at \<open>NaN\<close> or a
  negative number sets a property that is not an element and leaves the elements as they
  are.
\<close>

definition jsIndex :: "'a option list \<Rightarrow> int number \<Rightarrow> 'a option" where
  "jsIndex xs idx =
     (case idx of
        NaN \<Rightarrow> None
      | Num i \<Rightarrow> if 0 \<le> i \<and> i < int (length xs) then xs ! nat i else None)"

definition jsAssign :: "'a option list \<Rightarrow> int number \<Rightarrow> 'a \<Rightarrow> 'a option list" where
  "jsAssign xs idx v =
     (case idx of
        NaN \<Rightarrow> xs
      | Num i \<Rightarrow>
          if i < 0 then xs
          else if i < int (length xs) then xs[nat i := Some v]
          else xs @ replicate (nat i - length xs) None @ [Some v])"

text \<open>
  \<open>parseInt(k, 10)\<close>: leading white space is skipped, a sign is read, then the longest run
  of decimal digits; \<open>NaN\<close> when there is no digit.
\<close>

definition isDigit :: "char \<Rightarrow> bool" where
  "isDigit c = (48 \<le> (of_char c :: nat) \<and> (of_char c :: nat) \<le> 57)"

definition digitsValue :: "string \<Rightarrow> nat" where
  "digitsValue ds = foldl (\<lambda>acc c. 10 * acc + (of_char c - 48)) 0 ds"

definition parseInt :: "string \<Rightarrow> int number" where
  "parseInt s =
     (let t = dropWhile isSpace s;
          neg = (case t of c # _ \<Rightarrow> c = CHR ''-'' | [] \<Rightarrow> False);
          u = (case t of c # r \<Rightarrow> if c = CHR ''-'' \<or> c = CHR ''+'' then r else t | [] \<Rightarrow> []);
          ds = takeWhile isDigit u
      in if ds = [] then NaN
         else Num (if neg then - int (digitsValue ds) else int (digitsValue ds)))"

section \<open>Documents and the store\<close>

datatype ClockType = ClockIn | ClockOut

text \<open>
  A worked-hours entry. Its \<open>timestamp\<close> is the ISO text of an instant (the code writes
  \<open>dayjs.utc().toISOString()\<close>), held as that instant.
\<close>

record WorkedHoursModel =
  wh_id :: string
  wh_timestamp :: int
  wh_type :: ClockType
  wh_hour :: string

record DailyAttendance =
  da_id :: string
  day :: "int number"
  dayValue :: "string option"
  da_timestamp :: tstamp
  da_from :: "string option"
  da_to :: "string option"
  status :: string
  dailyWorkedHours :: "real number"
  workedHours :: "WorkedHoursModel list"

text \<open>
  The stored \<open>values\<close> field: an array, or an object with string keys (listed in the order
  of \<open>Object.entries\<close>, keys distinct).
\<close>

datatype values_field = Arr "DailyAttendance option list" | Obj "(string \<times> DailyAttendance) list"

record AttendanceModel =
  att_id :: string
  att_uid :: string
  year :: int
  month :: string
  monthlyWorkedHours :: "real number"
  lastClockInTimestamp :: tstamp
  dayValues :: values_field
  att_lastChanged :: tstamp

text \<open>
  The fields of an employee document that the core reads or writes; \<open>fullName\<close> is what
  \<open>getEmployeeFullName\<close> returns for it.
\<close>

record EmployeeModel =
  uid :: string
  fullName :: string
  telegramChatID :: "string option"
  workingArea :: "string option"
  timezone :: "string option"
  reportingLineManager :: "string option"
  currentLocation :: curloc
  lastChanged :: tstamp

text \<open>
  One project's database: the two collections by document id, in the order a query
  returns them, and a flag saying that every operation on the handle rejects (also after
  the retries of \<open>retryDatabaseOperation\<close>). \<open>getHealthyDbInstances\<close> returns a map from
  project names to such handles.
\<close>

record firestore =
  employee :: "(string \<times> EmployeeModel) list"
  attendance :: "(string \<times> AttendanceModel) list"
  offline :: bool

type_synonym dbs = "string \<Rightarrow> firestore option"

text \<open>
  \<open>doc(id).update(...)\<close>: rejects (\<open>None\<close>) when the handle is offline or the document does
  not exist; otherwise the document is changed in place.
\<close>

definition updateDoc :: "(string \<times> 'a) list \<Rightarrow> string \<Rightarrow> ('a \<Rightarrow> 'a) \<Rightarrow> (string \<times> 'a) list" where
  "updateDoc docs docId f = map (\<lambda>(k, d). if k = docId then (k, f d) else (k, d)) docs"

definition updateEmployee :: "firestore \<Rightarrow> string \<Rightarrow> (EmployeeModel \<Rightarrow> EmployeeModel) \<Rightarrow> firestore option" where
  "updateEmployee db docId f =
     (if offline db then None
      else case map_of (employee db) docId of
             None \<Rightarrow> None
           | Some _ \<Rightarrow> Some (db\<lparr>employee := updateDoc (employee db) docId f\<rparr>))"

definition updateAttendance :: "firestore \<Rightarrow> string \<Rightarrow> (AttendanceModel \<Rightarrow> AttendanceModel) \<Rightarrow> firestore option" where
  "updateAttendance db docId f =
     (if offline db then None
      else case map_of (attendance db) docId of
             None \<Rightarrow> None
           | Some _ \<Rightarrow> Some (db\<lparr>attendance := updateDoc (attendance db) docId f\<rparr>))"

section \<open>Live sessions (the bot, unnamed/part_001)\<close>

record LiveEntry =
  chatId :: int
  messageId :: int
  employeeId :: string
  projectName :: string
  liveUntilMs :: "int option"
  lastUpdateMs :: int

text \<open>The \<open>liveSessions\<close> map, in insertion order.\<close>

type_synonym sessions = "(string \<times> LiveEntry) list"

definition LIVE_GRACE_MS :: int where
  "LIVE_GRACE_MS = 2 * 60 * 1000"

definition makeLiveKey :: "int \<Rightarrow> int \<Rightarrow> string" where
  "makeLiveKey c m = show_int c @ '':'' @ show_int m"

text \<open>
  The sweeper's test on one entry: \<open>durationEnd = entry.liveUntilMs || +Infinity\<close> (so a
  \<open>liveUntilMs\<close> of 0 counts as unknown), \<open>staleEnd = lastUpdateMs + LIVE_GRACE_MS\<close>,
  \<open>now >= Math.min(durationEnd, staleEnd)\<close>.
\<close>

definition sessionOver :: "int \<Rightarrow> LiveEntry \<Rightarrow> bool" where
  "sessionOver now entry =
     (let staleEnd = lastUpdateMs entry + LIVE_GRACE_MS;
          threshold = (case liveUntilMs entry of
                         None \<Rightarrow> staleEnd
                       | Some durationEnd \<Rightarrow> if durationEnd = 0 then staleEnd else min durationEnd staleEnd)
      in now \<ge> threshold)"

text \<open>
  The field-path update \<open>{'currentLocation.isLive': false, 'currentLocation.endedAt': ts}\<close>
  on the \<open>currentLocation\<close> of a document.
\<close>

definition finalizeLocation :: "int \<Rightarrow> curloc \<Rightarrow> curloc" where
  "finalizeLocation ts c =
     (case c of
        Shared l \<Rightarrow> Shared (l\<lparr>isLive := False, endedAt := Iso ts\<rparr>)
      | _ \<Rightarrow> FinalizedOnly ts)"

text \<open>
  The body of the sweeper's loop for one entry (lines 51-76). A missing handle skips the
  update; a rejected update (or a rejected \<open>getHealthyDbInstances\<close>, which has the same
  effect) is caught and logged; the \<open>finally\<close> block deletes the key in every case. The instants read by \<open>Date.now()\<close> and \<open>getUTCTimestamp()\<close> in one tick are taken to
  be the same \<open>now\<close>.
\<close>

definition sweepEntry :: "int \<Rightarrow> dbs \<times> sessions \<Rightarrow> string \<times> LiveEntry \<Rightarrow> dbs \<times> sessions" where
  "sweepEntry now st ke =
     (let (healthy, live) = st; (key, entry) = ke in
      if sessionOver now entry then
        (let healthy' =
               (case healthy (projectName entry) of
                  None \<Rightarrow> healthy
                | Some db \<Rightarrow>
                    (case updateEmployee db (employeeId entry)
                            (\<lambda>e. e\<lparr>currentLocation := finalizeLocation now (currentLocation e),
                                   lastChanged := Iso now\<rparr>) of
                       None \<Rightarrow> healthy
                     | Some db' \<Rightarrow> healthy(projectName entry \<mapsto> db')))
         in (healthy', AList.delete key live))
      else (healthy, live))"

text \<open>One tick of the sweeper: the loop over the entries of the map.\<close>

definition sweep :: "int \<Rightarrow> dbs \<Rightarrow> sessions \<Rightarrow> dbs \<times> sessions" where
  "sweep now healthy live = foldl (sweepEntry now) (healthy, live) live"

subsection \<open>Ingestion\<close>

record TgLocation =
  tg_latitude :: real
  tg_longitude :: real
  horizontal_accuracy :: "real option"
  tg_heading :: "real option"
  tg_speed :: "real option"

text \<open>
  The registry part of \<open>saveEmployeeLocation\<close>: the live flag, \<open>liveUntilMs\<close> and the new
  registry.
\<close>

definition trackedSession ::
  "int \<Rightarrow> sessions \<Rightarrow> string \<Rightarrow> string \<Rightarrow> int \<Rightarrow> int \<Rightarrow> bool \<Rightarrow> bool \<times> int option \<times> sessions" where
  "trackedSession now live project empId chat msg isEdit =
     (let key = makeLiveKey chat msg in
      case map_of live key of
        Some existing \<Rightarrow>
          (True, liveUntilMs existing, AList.update key (existing\<lparr>lastUpdateMs := now\<rparr>) live)
      | None \<Rightarrow>
          if isEdit then
            (True, None,
             AList.update key \<lparr>chatId = chat, messageId = msg, employeeId = empId,
                projectName = project, liveUntilMs = None, lastUpdateMs = now\<rparr> live)
          else (False, None, live))"

definition knownDuration ::
  "int \<Rightarrow> sessions \<Rightarrow> string \<Rightarrow> string \<Rightarrow> int \<Rightarrow> int \<Rightarrow> int \<Rightarrow> bool \<times> int option \<times> sessions" where
  "knownDuration now live project empId chat msg p =
     (let until = Some (now + p * 1000) in
      (True, until,
       AList.update (makeLiveKey chat msg)
         \<lparr>chatId = chat, messageId = msg, employeeId = empId, projectName = project,
          liveUntilMs = until, lastUpdateMs = now\<rparr> live))"

definition upsertLiveSession ::
  "int \<Rightarrow> sessions \<Rightarrow> string \<Rightarrow> string \<Rightarrow> int \<Rightarrow> int \<Rightarrow> int option \<Rightarrow> bool
     \<Rightarrow> bool \<times> int option \<times> sessions" where
  "upsertLiveSession now live project empId chat msg livePeriodSeconds isEdit =
     (case livePeriodSeconds of
        Some p \<Rightarrow>
          if p > 0 then knownDuration now live project empId chat msg p
          else trackedSession now live project empId chat msg isEdit
      | None \<Rightarrow> trackedSession now live project empId chat msg isEdit)"

text \<open>The \<open>currentLocationData\<close> object built by \<open>saveEmployeeLocation\<close>.\<close>

definition currentLocationData ::
  "int \<Rightarrow> int \<Rightarrow> int \<Rightarrow> TgLocation \<Rightarrow> bool \<Rightarrow> int option \<Rightarrow> EmployeeCurrentLocation" where
  "currentLocationData now chat msg location live until =
     \<lparr>latitude = tg_latitude location, longitude = tg_longitude location,
      accuracy = horizontal_accuracy location, heading = tg_heading location,
      speed = tg_speed location,
      source = (if live then ''telegram_live'' else ''telegram''),
      isLive = live, updatedAt = Iso now,
      liveMessageId = show_int msg, liveChatId = show_int chat,
      liveUntil = (case until of None \<Rightarrow> TNull | Some u \<Rightarrow> if u = 0 then TNull else Iso u),
      endedAt = TNull\<rparr>"

datatype save_error = DbNotHealthy | UpdateRejected

text \<open>
  \<open>saveEmployeeLocation\<close> (lines 576-669): the error thrown, if any, and the store and
  the registry afterwards. The registry is changed before the write, so a rejected write
  leaves the registry entry behind. The append to \<open>locationLogs\<close> that follows the write
  does not touch \<open>currentLocation\<close> and is left out.
\<close>

definition saveEmployeeLocation ::
  "int \<Rightarrow> dbs \<Rightarrow> sessions \<Rightarrow> string \<Rightarrow> string \<Rightarrow> int \<Rightarrow> int \<Rightarrow> TgLocation \<Rightarrow> int option \<Rightarrow> bool
     \<Rightarrow> save_error option \<times> dbs \<times> sessions" where
  "saveEmployeeLocation now healthy live project empId chat msg location livePeriodSeconds isEdit =
     (case healthy project of
        None \<Rightarrow> (Some DbNotHealthy, healthy, live)
      | Some db \<Rightarrow>
          (let (isLiveNow, until, live') =
                 upsertLiveSession now live project empId chat msg livePeriodSeconds isEdit
           in case updateEmployee db empId
                     (\<lambda>e. e\<lparr>currentLocation :=
                                Shared (currentLocationData now chat msg location isLiveNow until),
                            lastChanged := Iso now\<rparr>) of
                None \<Rightarrow> (Some UpdateRejected, healthy, live')
              | Some db' \<Rightarrow> (None, healthy(project \<mapsto> db'), live')))"

text \<open>The invariant of a stored \<open>currentLocation\<close>: live implies not ended.\<close>

definition locationInvariant :: "curloc \<Rightarrow> bool" where
  "locationInvariant c =
     (case c of
        Absent \<Rightarrow> True
      | FinalizedOnly ts \<Rightarrow> True
      | Shared l \<Rightarrow> \<not> isLive l \<or> endedAt l = TNull)"

text \<open>The invariant at one document of one project (true where there is no document).\<close>

definition invariantAt :: "dbs \<Rightarrow> string \<Rightarrow> string \<Rightarrow> bool" where
  "invariantAt healthy project docId =
     (case healthy project of
        None \<Rightarrow> True
      | Some db \<Rightarrow>
          (case map_of (employee db) docId of
             None \<Rightarrow> True
           | Some e \<Rightarrow> locationInvariant (currentLocation e)))"

section \<open>The monitoring service (services/location-monitoring.service.ts)\<close>

text \<open>
  What the service takes from its runtime: \<open>JSON.parse\<close>; the text of an instant in a
  time zone under the format \<open>h:mm A\<close> (\<open>None\<close> when dayjs throws on the zone name); the
  default zone of \<open>dayjs_format.ts\<close>.
\<close>

record runtime =
  JSON_parse :: "string \<Rightarrow> json option"
  tz_h_mm_A :: "int \<Rightarrow> string \<Rightarrow> string option"
  DEFAULT_TZ :: string

text \<open>\<open>formatHour(d, employeeTimezone || undefined)\<close>, with \<open>tz || DEFAULT_TZ\<close> inside.\<close>

definition formatHour :: "runtime \<Rightarrow> int \<Rightarrow> string option \<Rightarrow> string option" where
  "formatHour rt d tz =
     tz_h_mm_A rt d (case tz of None \<Rightarrow> DEFAULT_TZ rt | Some z \<Rightarrow> if z = [] then DEFAULT_TZ rt else z)"

definition CHECK_INTERVAL_MINUTES :: int where
  "CHECK_INTERVAL_MINUTES = 5"

definition MAX_LOCATION_AGE_MINUTES :: int where
  "MAX_LOCATION_AGE_MINUTES = 10"

text \<open>\<open>normalizeAttendanceValues\<close> (lines 366-383).\<close>

definition normalizeAttendanceValues :: "values_field \<Rightarrow> DailyAttendance option list" where
  "normalizeAttendanceValues raw =
     (case raw of
        Arr xs \<Rightarrow> xs
      | Obj entries \<Rightarrow>
          foldl (\<lambda>arr (k, v).
                   case parseInt k of
                     NaN \<Rightarrow> arr
                   | Num idx \<Rightarrow> if idx \<ge> 0 \<and> idx < 31 then jsAssign arr (Num idx) v else arr)
            [] entries)"

text \<open>
  \<open>attendance.values[i]\<close> on the stored field as it is: an element of the array, or the
  property of the object whose key is the text of \<open>i\<close>.
\<close>

definition rawIndex :: "values_field \<Rightarrow> int number \<Rightarrow> DailyAttendance option" where
  "rawIndex raw idx =
     (case raw of
        Arr xs \<Rightarrow> jsIndex xs idx
      | Obj entries \<Rightarrow> map_of entries (show_number idx))"

text \<open>
  Setting a property of a plain object. An existing key keeps its place. A new key that is
  an array index (the canonical decimal text of a number below \<open>2^32 - 1\<close>) takes its place
  in ascending order among the index keys, which \<open>Object.entries\<close> lists first; any other
  new key goes to the end.
\<close>

definition isArrayIndexKey :: "string \<Rightarrow> bool" where
  "isArrayIndexKey k =
     (k \<noteq> [] \<and> list_all isDigit k \<and> k = show_nat (digitsValue k) \<and> digitsValue k < 4294967295)"

fun insertIndexKey :: "string \<Rightarrow> 'a \<Rightarrow> (string \<times> 'a) list \<Rightarrow> (string \<times> 'a) list" where
  "insertIndexKey k v [] = [(k, v)]"
| "insertIndexKey k v (e # rest) =
     (if isArrayIndexKey (fst e) \<and> digitsValue (fst e) < digitsValue k
      then e # insertIndexKey k v rest
      else (k, v) # e # rest)"

definition objAssign :: "(string \<times> 'a) list \<Rightarrow> string \<Rightarrow> 'a \<Rightarrow> (string \<times> 'a) list" where
  "objAssign entries k v =
     (case map_of entries k of
        Some _ \<Rightarrow> AList.update k v entries
      | None \<Rightarrow> if isArrayIndexKey k then insertIndexKey k v entries else entries @ [(k, v)])"

text \<open>\<open>values[i] = v\<close> on the stored field as it is.\<close>

definition rawAssign :: "values_field \<Rightarrow> int number \<Rightarrow> DailyAttendance \<Rightarrow> values_field" where
  "rawAssign raw idx v =
     (case raw of
        Arr xs \<Rightarrow> Arr (jsAssign xs idx v)
      | Obj entries \<Rightarrow> Obj (objAssign entries (show_number idx) v))"

text \<open>The index of the clock-in's day: \<open>dayjs.utc(lastClockInTimestamp).date() - 1\<close>.\<close>

definition clockInDayIndexOf :: "AttendanceModel \<Rightarrow> int number" where
  "clockInDayIndexOf a = num_add (date (utc (lastClockInTimestamp a))) (Num (- 1))"

text \<open>The day entry created where the day has none.\<close>

definition freshDay :: "string \<Rightarrow> int number \<Rightarrow> tstamp \<Rightarrow> DailyAttendance" where
  "freshDay newId idx ts =
     \<lparr>da_id = newId, day = num_add idx (Num 1), dayValue = None, da_timestamp = ts,
      da_from = None, da_to = None, status = ''N/A'', dailyWorkedHours = Num 0,
      workedHours = []\<rparr>"

record updateData =
  u_values :: "DailyAttendance option list"
  u_monthlyWorkedHours :: "real number"
  u_lastClockInTimestamp :: tstamp
  u_lastChanged :: tstamp

text \<open>
  The effect of \<open>update(updateData)\<close> on the stored document. The store is taken to keep
  the array as it is given, holes included.
\<close>

definition applyUpdate :: "updateData \<Rightarrow> AttendanceModel \<Rightarrow> AttendanceModel" where
  "applyUpdate u a =
     a\<lparr>dayValues := Arr (u_values u), monthlyWorkedHours := u_monthlyWorkedHours u,
       lastClockInTimestamp := u_lastClockInTimestamp u, att_lastChanged := u_lastChanged u\<rparr>"

text \<open>
  The computation of \<open>performAutoClockOut\<close> (lines 294-353) up to the update: \<open>None\<close>
  when \<open>formatHour\<close> throws. The pair \<open>ids\<close> holds what \<open>crypto.randomUUID\<close> returns for the
  id of the new worked-hours entry and for the id of a new day. The calls of \<open>dayjs.utc()\<close>
  in one invocation are taken to read the same instant \<open>now\<close>.
\<close>

definition buildAutoClockOut ::
  "runtime \<Rightarrow> int \<Rightarrow> string \<times> string \<Rightarrow> AttendanceModel \<Rightarrow> string option \<Rightarrow> updateData option" where
  "buildAutoClockOut rt now ids att employeeTimezone =
     (let clockInDate = utc (lastClockInTimestamp att);
          clockOutTimestamp = Iso now;
          clockInDayIndex = num_add (date clockInDate) (Num (- 1));
          hoursWorked = diff_hours_float now clockInDate;
          baseValues = (case dayValues att of
                          Arr xs \<Rightarrow> xs
                        | Obj entries \<Rightarrow> normalizeAttendanceValues (dayValues att));
          existing = jsIndex baseValues clockInDayIndex
      in case formatHour rt now employeeTimezone of
           None \<Rightarrow> None
         | Some hourText \<Rightarrow>
             (let clockOutEntry =
                    \<lparr>wh_id = fst ids, wh_timestamp = now, wh_type = ClockOut, wh_hour = hourText\<rparr>;
                  hours = (case existing of None \<Rightarrow> [] | Some d \<Rightarrow> workedHours d) @ [clockOutEntry];
                  daily = num_add
                            (or_zero (case existing of None \<Rightarrow> Num 0 | Some d \<Rightarrow> dailyWorkedHours d))
                            hoursWorked;
                  monthly = num_add (monthlyWorkedHours att) hoursWorked;
                  updatedDay =
                    (case existing of
                       None \<Rightarrow> freshDay (snd ids) clockInDayIndex clockOutTimestamp
                     | Some d \<Rightarrow> d)
                    \<lparr>workedHours := hours, dailyWorkedHours := daily, dayValue := Some ''A'',
                      status := ''Submitted'', da_timestamp := clockOutTimestamp\<rparr>
              in Some \<lparr>u_values = jsAssign baseValues clockInDayIndex updatedDay,
                       u_monthlyWorkedHours = monthly,
                       u_lastClockInTimestamp = TNull,
                       u_lastChanged = Iso now\<rparr>))"

datatype clockout_result = Success | Failure string

text \<open>\<open>performAutoClockOut\<close> (lines 287-364): its result and the databases afterwards.\<close>

definition performAutoClockOut ::
  "runtime \<Rightarrow> int \<Rightarrow> string \<times> string \<Rightarrow> AttendanceModel \<Rightarrow> string \<Rightarrow> dbs \<Rightarrow> string option
     \<Rightarrow> clockout_result \<times> dbs" where
  "performAutoClockOut rt now ids att project healthyDbs employeeTimezone =
     (case healthyDbs project of
        None \<Rightarrow> (Failure ''Database not available'', healthyDbs)
      | Some db \<Rightarrow>
          (case buildAutoClockOut rt now ids att employeeTimezone of
             None \<Rightarrow> (Failure ''Failed to update attendance record'', healthyDbs)
           | Some u \<Rightarrow>
               (case updateAttendance db (att_id att) (applyUpdate u) of
                  None \<Rightarrow> (Failure ''Failed to update attendance record'', healthyDbs)
                | Some db' \<Rightarrow> (Success, healthyDbs(project \<mapsto> db')))))"

text \<open>
  \<open>findManagerChatID\<close> (lines 385-408); a query that throws is caught and gives
  \<open>undefined\<close>.
\<close>

definition findManagerChatID :: "string \<Rightarrow> string \<Rightarrow> dbs \<Rightarrow> string option" where
  "findManagerChatID managerUid project healthyDbs =
     (case healthyDbs project of
        None \<Rightarrow> None
      | Some db \<Rightarrow>
          if offline db then None
          else (case find (\<lambda>(k, e). uid e = managerUid) (employee db) of
                  None \<Rightarrow> None
                | Some (k, manager) \<Rightarrow>
                    (case telegramChatID manager of
                       None \<Rightarrow> None
                     | Some c \<Rightarrow> if c = [] then None else Some c)))"

record AutoClockOutResult =
  res_success :: bool
  res_employeeId :: string
  res_employeeName :: string
  res_employeeChatID :: "string option"
  res_managerChatID :: "string option"
  res_error :: "string option"
  res_reason :: "string option"

definition triggerErrors :: "string list" where
  "triggerErrors =
     [''outside your designated working area'',
      ''Location sharing is not active'',
      ''Location sharing has ended'',
      ''Location data is too old'']"

text \<open>
  The test \<open>!validation.error || !triggerErrors.some(err => validation.error.includes(err))\<close>,
  negated.
\<close>

definition isTrigger :: "string option \<Rightarrow> bool" where
  "isTrigger err =
     (case err of
        None \<Rightarrow> False
      | Some msg \<Rightarrow> msg \<noteq> [] \<and> list_ex (str_includes msg) triggerErrors)"

text \<open>
  The entry that the dedup check looks at: the Clock-Out entries of the clock-in's day,
  sorted by descending timestamp (the sort is stable), first element.
\<close>

definition lastClockOutOf :: "AttendanceModel \<Rightarrow> WorkedHoursModel option" where
  "lastClockOutOf att =
     (case rawIndex (dayValues att) (clockInDayIndexOf att) of
        None \<Rightarrow> None
      | Some d \<Rightarrow>
          (case sort_key (\<lambda>wh. - wh_timestamp wh)
                  (filter (\<lambda>wh. wh_type wh = ClockOut) (workedHours d)) of
             [] \<Rightarrow> None
           | wh # _ \<Rightarrow> Some wh))"

definition recentlyClockedOut :: "int \<Rightarrow> AttendanceModel \<Rightarrow> bool" where
  "recentlyClockedOut now att =
     (case lastClockOutOf att of
        None \<Rightarrow> False
      | Some wh \<Rightarrow> num_lt (diff_minute now (Some (wh_timestamp wh))) (Num CHECK_INTERVAL_MINUTES))"

text \<open>
  What \<open>checkAndAutoClockOut\<close> does once it has decided to clock out: the call of
  \<open>performAutoClockOut\<close> and the result built from it.
\<close>

definition clockOutAndReport ::
  "runtime \<Rightarrow> int \<Rightarrow> string \<times> string \<Rightarrow> EmployeeModel \<Rightarrow> AttendanceModel \<Rightarrow> string \<Rightarrow> dbs
     \<Rightarrow> LocationValidationResult \<Rightarrow> AutoClockOutResult option \<times> dbs" where
  "clockOutAndReport rt now ids emp att project healthyDbs validation =
     (case performAutoClockOut rt now ids att project healthyDbs (timezone emp) of
        (Failure msg, healthyDbs') \<Rightarrow>
          (Some \<lparr>res_success = False, res_employeeId = uid emp, res_employeeName = fullName emp,
                 res_employeeChatID = telegramChatID emp, res_managerChatID = None,
                 res_error = (if msg = [] then None else Some msg), res_reason = None\<rparr>,
           healthyDbs')
      | (Success, healthyDbs') \<Rightarrow>
          (Some \<lparr>res_success = True, res_employeeId = uid emp, res_employeeName = fullName emp,
                 res_employeeChatID = telegramChatID emp,
                 res_managerChatID =
                   (case reportingLineManager emp of
                      None \<Rightarrow> None
                    | Some m \<Rightarrow> if m = [] then None else findManagerChatID m project healthyDbs'),
                 res_error = None,
                 res_reason =
                   (case error validation of
                      None \<Rightarrow> Some ''Outside working area''
                    | Some msg \<Rightarrow> Some msg)\<rparr>,
           healthyDbs'))"

text \<open>
  \<open>checkAndAutoClockOut\<close> (lines 177-285): \<open>None\<close> is the source's \<open>return null\<close>, on each
  of its skips; a result is returned exactly when \<open>performAutoClockOut\<close> was called.
\<close>

definition checkAndAutoClockOut ::
  "runtime \<Rightarrow> int \<Rightarrow> string \<times> string \<Rightarrow> EmployeeModel \<Rightarrow> AttendanceModel \<Rightarrow> string \<Rightarrow> dbs
     \<Rightarrow> AutoClockOutResult option \<times> dbs" where
  "checkAndAutoClockOut rt now ids emp att project healthyDbs =
     (case workingArea emp of
        None \<Rightarrow> (None, healthyDbs)
      | Some area \<Rightarrow>
          if area = [] \<or> trim area = [] then (None, healthyDbs)
          else
            (let validation =
                   validateEmployeeLocationAndArea (JSON_parse rt) now (currentLocation emp) area
                     MAX_LOCATION_AGE_MINUTES
             in if isValid validation then (None, healthyDbs)
                else if \<not> isTrigger (error validation) then (None, healthyDbs)
                else if recentlyClockedOut now att then (None, healthyDbs)
                else clockOutAndReport rt now ids emp att project healthyDbs validation))"

subsection \<open>The scan and the tick\<close>

text \<open>
  \<open>dayjs.utc().year()\<close> and \<open>dayjs.utc().format('MMMM')\<close>: the year and the English month
  name of an instant, by the same calendar computation as \<open>dayOfMonth\<close>.
\<close>

definition monthIndex :: "int \<Rightarrow> int" where
  "monthIndex ms =
     (let z = ms div 86400000 + 719468;
          doe = z mod 146097;
          yoe = (doe - doe div 1460 + doe div 36524 - doe div 146096) div 365;
          doy = doe - (365 * yoe + yoe div 4 - yoe div 100);
          mp = (5 * doy + 2) div 153
      in if mp < 10 then mp + 3 else mp - 9)"

definition yearOf :: "int \<Rightarrow> int" where
  "yearOf ms =
     (let z = ms div 86400000 + 719468;
          era = z div 146097;
          doe = z mod 146097;
          yoe = (doe - doe div 1460 + doe div 36524 - doe div 146096) div 365
      in yoe + era * 400 + (if monthIndex ms \<le> 2 then 1 else 0))"

definition monthNames :: "string list" where
  "monthNames =
     [''January'', ''February'', ''March'', ''April'', ''May'', ''June'', ''July'', ''August'',
      ''September'', ''October'', ''November'', ''December'']"

definition monthName :: "int \<Rightarrow> string" where
  "monthName ms = (case drop (nat (monthIndex ms - 1)) monthNames of [] \<Rightarrow> [] | name # _ \<Rightarrow> name)"

record ClockedInEmployee =
  c_employee :: EmployeeModel
  c_attendance :: AttendanceModel
  c_projectName :: string

text \<open>
  The part of \<open>findClockedInEmployees\<close> (lines 120-175) for one project: the query by year and month, the
  filter on \<open>lastClockInTimestamp\<close> (neither null nor undefined), the look-up of the
  employee by \<open>uid\<close>. The scanned attendance takes the document id as its \<open>id\<close>. A handle
  that rejects makes the \<open>catch\<close> skip the project.
\<close>

definition clockedInOf :: "int \<Rightarrow> string \<Rightarrow> firestore \<Rightarrow> ClockedInEmployee list" where
  "clockedInOf now project db =
     (if offline db then []
      else
        concat
          (map (\<lambda>(docId, doc).
                  case find (\<lambda>(k, e). uid e = att_uid doc) (employee db) of
                    None \<Rightarrow> []
                  | Some (k, e) \<Rightarrow>
                      [\<lparr>c_employee = e, c_attendance = doc\<lparr>att_id := docId\<rparr>,
                        c_projectName = project\<rparr>])
             (filter (\<lambda>(docId, doc). lastClockInTimestamp doc \<noteq> TNull)
                (filter (\<lambda>(docId, doc). year doc = yearOf now \<and> month doc = monthName now)
                   (attendance db)))))"

text \<open>
  \<open>findClockedInEmployees\<close>; \<open>projects\<close> is the list of the keys of \<open>healthyDbs\<close>, in the
  order of \<open>Object.entries\<close>.
\<close>

definition findClockedInEmployees :: "int \<Rightarrow> string list \<Rightarrow> dbs \<Rightarrow> ClockedInEmployee list" where
  "findClockedInEmployees now projects healthyDbs =
     concat (map (\<lambda>project. case healthyDbs project of
                               None \<Rightarrow> []
                             | Some db \<Rightarrow> clockedInOf now project db) projects)"

text \<open>
  The loop of \<open>runLocationCheck\<close> (lines 98-107) over the scanned employees: the results collected, and
  the databases afterwards. \<open>ids n\<close> gives the identifiers drawn for the \<open>n\<close>-th employee.
\<close>

fun checkAll ::
  "runtime \<Rightarrow> int \<Rightarrow> (nat \<Rightarrow> string \<times> string) \<Rightarrow> nat \<Rightarrow> ClockedInEmployee list \<Rightarrow> dbs
     \<Rightarrow> AutoClockOutResult list \<times> dbs" where
  "checkAll rt now ids n [] healthyDbs = ([], healthyDbs)"
| "checkAll rt now ids n (c # cs) healthyDbs =
     (case checkAndAutoClockOut rt now (ids n) (c_employee c) (c_attendance c) (c_projectName c)
             healthyDbs of
        (r, healthyDbs') \<Rightarrow>
          (case checkAll rt now ids (Suc n) cs healthyDbs' of
             (rs, healthyDbs'') \<Rightarrow>
               ((case r of None \<Rightarrow> rs | Some res \<Rightarrow> res # rs), healthyDbs'')))"

text \<open>
  One tick of the monitor, up to the notifications: the results to be notified and the
  databases afterwards.
\<close>

definition runLocationCheck ::
  "runtime \<Rightarrow> int \<Rightarrow> (nat \<Rightarrow> string \<times> string) \<Rightarrow> string list \<Rightarrow> dbs
     \<Rightarrow> AutoClockOutResult list \<times> dbs" where
  "runLocationCheck rt now ids projects healthyDbs =
     checkAll rt now ids 0 (findClockedInEmployees now projects healthyDbs) healthyDbs"

text \<open>Reading a document back: the attendance document stored under a project and an id.\<close>

definition storedAttendance :: "dbs \<Rightarrow> string \<Rightarrow> string \<Rightarrow> AttendanceModel option" where
  "storedAttendance healthyDbs project docId =
     (case healthyDbs project of
        None \<Rightarrow> None
      | Some db \<Rightarrow> map_of (attendance db) docId)"

text \<open>The days of a document, and the instants of all its Clock-Out entries, day by day.\<close>

definition daysOf :: "values_field \<Rightarrow> DailyAttendance list" where
  "daysOf raw =
     (case raw of
        Arr xs \<Rightarrow> concat (map (\<lambda>x. case x of None \<Rightarrow> [] | Some d \<Rightarrow> [d]) xs)
      | Obj entries \<Rightarrow> map snd entries)"

definition clockOutStamps :: "AttendanceModel \<Rightarrow> int list" where
  "clockOutStamps a =
     concat (map (\<lambda>d. map wh_timestamp (filter (\<lambda>wh. wh_type wh = ClockOut) (workedHours d)))
               (daysOf (dayValues a)))"



section \<open>The human clock-in and clock-out (util/functions/clockInOrOut.ts)\<close>

fun num_ge :: "'a::ord number \<Rightarrow> 'a number \<Rightarrow> bool" where
  "num_ge (Num a) (Num b) = (a \<ge> b)"
| "num_ge _ _ = False"

fun num_times :: "'a::times number \<Rightarrow> 'a number \<Rightarrow> 'a number" where
  "num_times (Num a) (Num b) = Num (a * b)"
| "num_times _ _ = NaN"

text \<open>\<open>threshold ? threshold / 100 : 0\<close> for a threshold that may be missing.\<close>

definition fractionOf :: "real option \<Rightarrow> real number" where
  "fractionOf threshold = (case threshold of None \<Rightarrow> Num 0 | Some p \<Rightarrow> Num (p / 100))"

text \<open>
  The classification of the day on a human clock-out. \<open>dailyWorkingHour\<close> is the result of
  \<open>calculateDailyWorkingHours\<close>; a falsy one (0 or \<open>NaN\<close>) keeps the day's old value.
\<close>

definition attendanceValueOf ::
  "real number \<Rightarrow> real number \<Rightarrow> real option \<Rightarrow> real option \<Rightarrow> string option \<Rightarrow> string option" where
  "attendanceValueOf dailyWorkingHour worked presentThreshold halfPresentThreshold old =
     (case dailyWorkingHour of
        NaN \<Rightarrow> (case old of None \<Rightarrow> None | Some v \<Rightarrow> if v = [] then None else Some v)
      | Num h \<Rightarrow>
          if h = 0 then (case old of None \<Rightarrow> None | Some v \<Rightarrow> if v = [] then None else Some v)
          else if num_ge worked (num_times dailyWorkingHour (fractionOf presentThreshold)) then Some ''P''
          else if num_ge worked (num_times dailyWorkingHour (fractionOf halfPresentThreshold))
          then Some ''H''
          else Some ''A'')"

text \<open>
  The outcome of \<open>clockInOrOut\<close> (lines 9-155) up to its call of \<open>updateAttendance\<close>: an
  exception (\<open>formatHour\<close> throws), an error result, or the document \<open>newData\<close> that is
  handed to \<open>updateAttendance\<close>. \<open>dailyWorkingHour\<close> stands for the result of
  \<open>calculateDailyWorkingHours\<close>, the two thresholds for those of the attendance logic.
\<close>

datatype clock_outcome = Thrown | Refused string | Handed AttendanceModel

definition clockInOrOut ::
  "runtime \<Rightarrow> int \<Rightarrow> string \<times> string \<Rightarrow> ClockType \<Rightarrow> AttendanceModel \<Rightarrow> real number \<Rightarrow> real option
     \<Rightarrow> real option \<Rightarrow> string option \<Rightarrow> clock_outcome" where
  "clockInOrOut rt now ids type att dailyWorkingHour presentThreshold halfPresentThreshold
      employeeTimezone =
     (if dailyWorkingHour = Num 0 then Refused ''Set up shift type and associate to employee''
      else
        (let currentDayIndex =
               (case type of
                  ClockIn \<Rightarrow> num_add (date (Some now)) (Num (- 1))
                | ClockOut \<Rightarrow> clockInDayIndexOf att);
             before = (case rawIndex (dayValues att) currentDayIndex of
                         None \<Rightarrow> []
                       | Some d \<Rightarrow> workedHours d)
         in case type of
              ClockIn \<Rightarrow>
                (let clockInTimestamp = Iso now;
                     today = (case rawIndex (dayValues att) currentDayIndex of
                                None \<Rightarrow> freshDay (snd ids) currentDayIndex clockInTimestamp
                              | Some d \<Rightarrow> d)
                 in case formatHour rt now employeeTimezone of
                      None \<Rightarrow> Thrown
                    | Some hourText \<Rightarrow>
                        Handed (att
                          \<lparr>dayValues :=
                             rawAssign (dayValues att) currentDayIndex
                               (today\<lparr>workedHours :=
                                  before @ [\<lparr>wh_id = fst ids, wh_timestamp = now,
                                             wh_type = ClockIn, wh_hour = hourText\<rparr>]\<rparr>),
                           lastClockInTimestamp := clockInTimestamp\<rparr>))
            | ClockOut \<Rightarrow>
                if \<not> truthy (lastClockInTimestamp att)
                then Refused ''Cannot clock out without a previous clock-in.''
                else
                  (let clockOutTimestamp = Iso now;
                       clockInDayIndex = clockInDayIndexOf att;
                       theDay = (case rawIndex (dayValues att) clockInDayIndex of
                                   None \<Rightarrow> freshDay (snd ids) clockInDayIndex clockOutTimestamp
                                 | Some d \<Rightarrow> d);
                       hoursWorked = diff_hours_float now (utc (lastClockInTimestamp att));
                       daily = num_add (dailyWorkedHours theDay) hoursWorked;
                       monthly = num_add (monthlyWorkedHours att) hoursWorked
                   in case formatHour rt now employeeTimezone of
                        None \<Rightarrow> Thrown
                      | Some hourText \<Rightarrow>
                          Handed (att
                            \<lparr>monthlyWorkedHours := monthly,
                             dayValues :=
                               rawAssign (dayValues att) clockInDayIndex
                                 (theDay
                                    \<lparr>workedHours :=
                                       before @ [\<lparr>wh_id = fst ids, wh_timestamp = now,
                                                  wh_type = ClockOut, wh_hour = hourText\<rparr>],
                                     dayValue :=
                                       attendanceValueOf dailyWorkingHour daily presentThreshold
                                         halfPresentThreshold (dayValue theDay),
                                     dailyWorkedHours := daily,
                                     status := ''Submitted'',
                                     da_timestamp := clockOutTimestamp\<rparr>),
                             lastClockInTimestamp := TNull\<rparr>))))"

section \<open>Concrete inputs\<close>

text \<open>Inputs at which the theorems below are instantiated.\<close>

definition unitSquare :: json where
  "unitSquare = JArr [JArr [JArr [JNum 0, JNum 0], JArr [JNum 1, JNum 0], JArr [JNum 1, JNum 1],
     JArr [JNum 0, JNum 1]]]"

definition squareText :: string where
  "squareText = ''[[[0,0],[1,0],[1,1],[0,1]]]''"

text \<open>A stand-in for \<open>JSON.parse\<close> that knows one text.\<close>

definition toy_JSON_parse :: "string \<Rightarrow> json option" where
  "toy_JSON_parse s = (if s = squareText then Some unitSquare else None)"

definition liveOldInside :: EmployeeCurrentLocation where
  "liveOldInside =
     \<lparr>latitude = 1/2, longitude = 1/2, accuracy = Some 5, heading = None, speed = None,
      source = ''telegram_live'', isLive = True, updatedAt = Iso 0, liveMessageId = ''7'',
      liveChatId = ''42'', liveUntil = TNull, endedAt = TNull\<rparr>"

definition staleStatic :: EmployeeCurrentLocation where
  "staleStatic = liveOldInside\<lparr>isLive := False, source := ''telegram''\<rparr>"

definition triangle :: json where
  "triangle = JArr [JArr [JNum 0, JNum 0], JArr [JNum 1, JNum 0], JArr [JNum 1, JNum 1]]"

definition someEmployee :: EmployeeModel where
  "someEmployee =
     \<lparr>uid = ''u1'', fullName = ''Ada Lovelace'', telegramChatID = Some ''42'',
      workingArea = Some squareText, timezone = None, reportingLineManager = None,
      currentLocation = Shared liveOldInside, lastChanged = Iso 0\<rparr>"

definition offlineDb :: firestore where
  "offlineDb = \<lparr>employee = [(''emp1'', someEmployee)], attendance = [], offline = True\<rparr>"

definition onlineDb :: firestore where
  "onlineDb = offlineDb\<lparr>offline := False\<rparr>"

text \<open>A session whose duration ended at 1000000 ms, and one updated a second before that.\<close>

definition expiredEntry :: LiveEntry where
  "expiredEntry =
     \<lparr>chatId = 42, messageId = 7, employeeId = ''emp1'', projectName = ''acme'',
      liveUntilMs = Some 1000000, lastUpdateMs = 900000\<rparr>"

definition freshEntry :: LiveEntry where
  "freshEntry =
     \<lparr>chatId = 43, messageId = 8, employeeId = ''emp2'', projectName = ''acme'',
      liveUntilMs = None, lastUpdateMs = 999000\<rparr>"

definition somePosition :: TgLocation where
  "somePosition =
     \<lparr>tg_latitude = 1/2, tg_longitude = 1/2, horizontal_accuracy = Some 12, tg_heading = None,
      tg_speed = None\<rparr>"

text \<open>
  A runtime whose formatter always answers, identifiers, and a document clocked in on
  2025-09-14 at 23:50 UTC (1757893800000 ms), with that day at index 13.
\<close>

definition rt0 :: runtime where
  "rt0 = \<lparr>JSON_parse = toy_JSON_parse, tz_h_mm_A = (\<lambda>d z. Some ''3:00 AM''),
           DEFAULT_TZ = ''Africa/Nairobi''\<rparr>"

definition ids0 :: "string \<times> string" where
  "ids0 = (''uuid-entry'', ''uuid-day'')"

definition day14 :: DailyAttendance where
  "day14 = \<lparr>da_id = ''d14'', day = Num 14, dayValue = None, da_timestamp = Iso 1757893800000,
     da_from = None, da_to = None, status = ''N/A'', dailyWorkedHours = Num 0,
     workedHours = [\<lparr>wh_id = ''w1'', wh_timestamp = 1757893800000, wh_type = ClockIn,
                     wh_hour = ''2:50 AM''\<rparr>]\<rparr>"

definition clockedIn :: AttendanceModel where
  "clockedIn = \<lparr>att_id = ''a1'', att_uid = ''u1'', year = 2025, month = ''September'',
     monthlyWorkedHours = Num 100, lastClockInTimestamp = Iso 1757893800000,
     dayValues = Arr (replicate 13 None @ [Some day14]), att_lastChanged = Iso 1757893800000\<rparr>"

definition endedEmployee :: EmployeeModel where
  "endedEmployee = someEmployee\<lparr>currentLocation := FinalizedOnly 1757893860000\<rparr>"

definition attDb :: firestore where
  "attDb = \<lparr>employee = [(''emp1'', endedEmployee)], attendance = [(''a1'', clockedIn)],
            offline = False\<rparr>"

text \<open>
  The same document after a clock-in at 23:40, a clock-out at 23:49 and a clock-in at 23:50
  of that day; an employee with no location at all.
\<close>

definition day14b :: DailyAttendance where
  "day14b = day14\<lparr>workedHours :=
     [\<lparr>wh_id = ''w0'', wh_timestamp = 1757893200000, wh_type = ClockIn, wh_hour = ''2:40 AM''\<rparr>,
      \<lparr>wh_id = ''w1'', wh_timestamp = 1757893740000, wh_type = ClockOut, wh_hour = ''2:49 AM''\<rparr>,
      \<lparr>wh_id = ''w2'', wh_timestamp = 1757893800000, wh_type = ClockIn, wh_hour = ''2:50 AM''\<rparr>]\<rparr>"

definition backAgain :: AttendanceModel where
  "backAgain = clockedIn\<lparr>dayValues := Arr (replicate 13 None @ [Some day14b])\<rparr>"


text \<open>
  A night across midnight. The first tick of the monitor runs at 00:00:15 on the 15th
  (1757894415000 ms) and leaves \<open>docA\<close>; the employee clocks in again at 00:01:00
  (1757894460000 ms), which gives \<open>docB\<close>; the new live session is finalized at
  00:03:00; the next tick runs at 00:04:45
  (1757894685000 ms), 270 seconds after the first, as the first two ticks after
  \<open>startMonitoring\<close> do (30 seconds, then 5 minutes).
\<close>

definition ids1 :: "string \<times> string" where
  "ids1 = (''uuid-entry-2'', ''uuid-day-2'')"

definition ids2 :: "string \<times> string" where
  "ids2 = (''uuid-entry-3'', ''uuid-day-3'')"

definition day14A :: DailyAttendance where
  "day14A = day14
     \<lparr>workedHours := workedHours day14 @
        [\<lparr>wh_id = ''uuid-entry'', wh_timestamp = 1757894415000, wh_type = ClockOut,
          wh_hour = ''3:00 AM''\<rparr>],
      dailyWorkedHours := Num (41 / 240), dayValue := Some ''A'', status := ''Submitted'',
      da_timestamp := Iso 1757894415000\<rparr>"

definition docA :: AttendanceModel where
  "docA = clockedIn
     \<lparr>dayValues := Arr (replicate 13 None @ [Some day14A]),
      monthlyWorkedHours := Num (100 + 41 / 240),
      lastClockInTimestamp := TNull, att_lastChanged := Iso 1757894415000\<rparr>"

definition day15B :: DailyAttendance where
  "day15B =
     \<lparr>da_id = ''uuid-day-2'', day = Num 15, dayValue = None, da_timestamp = Iso 1757894460000,
      da_from = None, da_to = None, status = ''N/A'', dailyWorkedHours = Num 0,
      workedHours = [\<lparr>wh_id = ''uuid-entry-2'', wh_timestamp = 1757894460000,
                      wh_type = ClockIn, wh_hour = ''3:00 AM''\<rparr>]\<rparr>"

definition docB :: AttendanceModel where
  "docB = docA
     \<lparr>dayValues := Arr (replicate 13 None @ [Some day14A, Some day15B]),
      lastClockInTimestamp := Iso 1757894460000\<rparr>"

definition endedAgain :: EmployeeModel where
  "endedAgain = someEmployee\<lparr>currentLocation := FinalizedOnly 1757894580000\<rparr>"

definition dbB :: firestore where
  "dbB = attDb\<lparr>employee := [(''emp1'', endedAgain)], attendance := [(''a1'', docB)]\<rparr>"




definition notClockedIn :: AttendanceModel where
  "notClockedIn = clockedIn\<lparr>lastClockInTimestamp := TNull\<rparr>"

definition idleDb :: firestore where
  "idleDb = attDb\<lparr>attendance := [(''a1'', notClockedIn)]\<rparr>"

text \<open>
  A second document of the same month that is not clocked in, next to the clocked-in one.
\<close>

definition idleDoc :: AttendanceModel where
  "idleDoc = notClockedIn\<lparr>att_id := ''a2'', att_uid := ''u2''\<rparr>"

definition twoDb :: firestore where
  "twoDb = attDb\<lparr>attendance := [(''a1'', clockedIn), (''a2'', idleDoc)]\<rparr>"

definition sameIds :: "nat \<Rightarrow> string \<times> string" where
  "sameIds n = ids0"

section \<open>Theorems\<close>

text \<open>
  C10. For every location and every maximal age, \<open>hasValidLocation\<close> returns true exactly
  when \<open>validateEmployeeLocation\<close> returns a verdict with \<open>isValid = true\<close>.
\<close>

theorem hasValidLocation_agrees:
  "hasValidLocation now loc maxAge = isValid (validateEmployeeLocation now loc maxAge)"
  by (simp add: hasValidLocation_def validateEmployeeLocation_def noLocationResult_def
      sharingEndedResult_def Let_def split: curloc.split)

subsection \<open>The validator\<close>

lemma STALE_LOCATION_distinct [simp]:
  "STALE_LOCATION a \<noteq> NO_LOCATION" "STALE_LOCATION a \<noteq> SHARING_ENDED"
  "STALE_LOCATION a \<noteq> BAD_WORKING_AREA" "STALE_LOCATION a \<noteq> OUTSIDE_AREA"
  "STALE_LOCATION a \<noteq> NOT_LIVE"
  "NO_LOCATION \<noteq> STALE_LOCATION a" "SHARING_ENDED \<noteq> STALE_LOCATION a"
  "BAD_WORKING_AREA \<noteq> STALE_LOCATION a" "OUTSIDE_AREA \<noteq> STALE_LOCATION a"
  "NOT_LIVE \<noteq> STALE_LOCATION a"
  by (simp_all add: STALE_LOCATION_def NO_LOCATION_def SHARING_ENDED_def BAD_WORKING_AREA_def
      OUTSIDE_AREA_def NOT_LIVE_def)

text \<open>
  C4. First match wins. For a location whose \<open>endedAt\<close> is null (or empty), whose effective
  live flag is true and whose coordinates lie inside the parsed working area, the verdict is
  valid whatever the age of the location. And a verdict of kind \<open>STALE_LOCATION\<close> only
  arises from a location whose effective live flag is false (and whose age exceeds the
  maximum).
\<close>

theorem live_inside_valid_at_any_age:
  "(\<not> truthy (endedAt l) \<and> effectiveIsLive now l \<and> parseWorkingArea P wa = Some area \<and>
      isPointInMultiPolygon (longitude l, latitude l) area
      \<longrightarrow> isValid (validateEmployeeLocationAndArea P now (Shared l) wa maxAge)) \<and>
   (error (validateEmployeeLocationAndArea P now loc wa maxAge) = Some (STALE_LOCATION a)
      \<longrightarrow> (\<exists>l'. loc = Shared l' \<and> \<not> effectiveIsLive now l' \<and>
             num_gt (diff_minute now (utc (updatedAt l'))) (Num maxAge)))"
  by (auto simp add: validateEmployeeLocationAndArea_def noLocationResult_def
      sharingEndedResult_def Let_def split: curloc.splits option.splits if_splits)

text \<open>
  At 100 minutes of age against a maximum of 10: the live location inside the unit square
  is valid; the same location, not live, is stale.
\<close>

theorem live_inside_valid_at_any_age_witness:
  "isValid (validateEmployeeLocationAndArea toy_JSON_parse 6000000 (Shared liveOldInside)
      squareText 10) \<and>
   num_gt (diff_minute 6000000 (utc (updatedAt liveOldInside))) (Num 10) \<and>
   error (validateEmployeeLocationAndArea toy_JSON_parse 6000000 (Shared staleStatic)
      squareText 10) = Some (STALE_LOCATION (Num 100)) \<and>
   \<not> effectiveIsLive 6000000 staleStatic"
  using live_inside_valid_at_any_age [of liveOldInside 6000000 toy_JSON_parse squareText
      "[[[[0,0],[1,0],[1,1],[0,1]]]]" 10 "Shared staleStatic" "Num 100"]
  by (simp add: toy_JSON_parse_def unitSquare_def liveOldInside_def staleStatic_def
      effectiveIsLive_def parseWorkingArea_def looksLikeSinglePolygon_def polygonOf_def
      ringOf_def coordOf_def validatedRingOf_def isPointInPolygon_def rayStep_def upt_rec
      validateEmployeeLocationAndArea_def diff_minute_def diff_unit_def absFloor_def Let_def)

subsection \<open>The polygon parser\<close>

text \<open>
  What the parser accepts: an array holding one ring (a polygon of a single ring, which is
  wrapped), or an array of at least two polygons.
\<close>

lemma those_eq_None_iff: "(those xs = None) = (None \<in> set xs)"
  by (induction xs) (auto split: option.splits)

lemma those_map_iff: "(those (map f xs) \<noteq> None) = (\<forall>x \<in> set xs. f x \<noteq> None)"
  by (induction xs) (auto split: option.splits)

lemma parseWorkingArea_accepts_iff:
  "(parseWorkingArea P s \<noteq> None) =
     ((\<exists>ring. P s = Some (JArr [ring]) \<and> ringOf ring \<noteq> None) \<or>
      (\<exists>ps. P s = Some (JArr ps) \<and> 2 \<le> length ps \<and> (\<forall>poly \<in> set ps. polygonOf poly \<noteq> None)))"
proof (cases "P s")
  case None
  then show ?thesis by (simp add: parseWorkingArea_def)
next
  case (Some parsed)
  show ?thesis
  proof (cases parsed)
    case (JArr ps)
    show ?thesis
    proof (cases ps)
      case Nil
      then show ?thesis by (simp add: parseWorkingArea_def Some JArr)
    next
      case (Cons p rest)
      show ?thesis
      proof (cases rest)
        case Nil
        show ?thesis
          by (auto simp add: parseWorkingArea_def Some JArr Cons Nil looksLikeSinglePolygon_def
              polygonOf_def ringOf_def coordOf_def those_eq_None_iff
              split: json.splits list.splits option.splits if_splits)
      next
        case (Cons q rest')
        have "\<not> looksLikeSinglePolygon (p # q # rest')"
          by (simp add: looksLikeSinglePolygon_def split: json.splits list.splits)
        then have eq: "parseWorkingArea P s = those (map polygonOf ps)"
          by (simp add: parseWorkingArea_def Some JArr \<open>ps = p # rest\<close> Cons)
        have len: "2 \<le> length ps" "ps \<noteq> [p']" for p'
          by (simp_all add: \<open>ps = p # rest\<close> Cons)
        show ?thesis
          unfolding eq those_map_iff using len by (auto simp add: Some JArr)
      qed
    qed
  qed (simp_all add: parseWorkingArea_def Some)
qed

text \<open>
  Every well-formed polygon, sent as a list of one polygon, is rejected: the
  single-polygon test fires on it, and its rings are then checked as coordinates.
\<close>

lemma one_polygon_list_rejected:
  "polygonOf poly = Some p \<Longrightarrow> P s = Some (JArr [poly]) \<Longrightarrow> parseWorkingArea P s = None"
  by (auto simp add: parseWorkingArea_def polygonOf_def looksLikeSinglePolygon_def ringOf_def
      coordOf_def split: json.splits list.splits if_splits option.splits)

text \<open>
  C8. \<open>parseWorkingArea\<close> should return a multi-polygon for the JSON of a single polygon
  and for the JSON of a list of polygons. On the triangle it does so for the one-ring
  polygon and for a list of two polygons, and returns null for the list of one polygon and
  for the polygon with two rings.
\<close>

theorem parseWorkingArea_rejects_one_polygon_list:
  "parseWorkingArea (\<lambda>s. Some (JArr [JArr [triangle]])) ''[[[[0,0],[1,0],[1,1]]]]'' = None \<and>
   parseWorkingArea (\<lambda>s. Some (JArr [triangle, triangle]))
       ''[[[0,0],[1,0],[1,1]],[[0,0],[1,0],[1,1]]]'' = None \<and>
   parseWorkingArea (\<lambda>s. Some (JArr [triangle])) ''[[[0,0],[1,0],[1,1]]]''
       = Some [[[[0,0],[1,0],[1,1]]]] \<and>
   parseWorkingArea (\<lambda>s. Some (JArr [JArr [triangle], JArr [triangle]]))
       ''[[[[0,0],[1,0],[1,1]]],[[[0,0],[1,0],[1,1]]]]''
       = Some [[[[0,0],[1,0],[1,1]]], [[[0,0],[1,0],[1,1]]]]"
  by (simp add: parseWorkingArea_def triangle_def looksLikeSinglePolygon_def polygonOf_def
      ringOf_def coordOf_def)

subsection \<open>The sweeper and the ingestion path\<close>

lemma sweepEntry_sessions:
  "snd (sweepEntry now (h, r) (k, e)) = (if sessionOver now e then AList.delete k r else r)"
  by (simp add: sweepEntry_def Let_def)

lemma sweep_fold_sessions:
  "snd (foldl (sweepEntry now) (h, r) xs)
     = filter (\<lambda>p. fst p \<notin> fst ` set (filter (\<lambda>x. sessionOver now (snd x)) xs)) r"
proof (induction xs arbitrary: h r)
  case Nil
  then show ?case by simp
next
  case (Cons x xs)
  obtain k e where x: "x = (k, e)" by (cases x)
  obtain h' r' where st: "sweepEntry now (h, r) (k, e) = (h', r')"
    by (cases "sweepEntry now (h, r) (k, e)")
  have r': "r' = (if sessionOver now e then AList.delete k r else r)"
    using sweepEntry_sessions [of now h r k e] st by simp
  have "snd (foldl (sweepEntry now) (h, r) (x # xs)) = snd (foldl (sweepEntry now) (h', r') xs)"
    by (simp add: x st)
  also have "\<dots> = filter (\<lambda>p. fst p \<notin> fst ` set (filter (\<lambda>x. sessionOver now (snd x)) xs)) r'"
    by (rule Cons.IH)
  also have "\<dots> = filter (\<lambda>p. fst p \<notin> fst ` set (filter (\<lambda>x. sessionOver now (snd x)) (x # xs))) r"
  proof (cases "sessionOver now e")
    case True
    then show ?thesis
      by (auto simp add: r' x AList.delete_eq intro!: filter_cong)
  next
    case False
    then show ?thesis by (simp add: r' x)
  qed
  finally show ?case .
qed

text \<open>
  C1, as the code has it. An entry that the sweeper decides is over is removed from the
  registry in the same tick whether the update of the employee document succeeds, is
  rejected or is skipped for want of a database handle: after a tick the registry holds
  exactly the entries that are not over. Nothing is retried on the next tick.
\<close>

theorem sweeper_always_removes:
  "distinct (map fst live) \<Longrightarrow>
     snd (sweep now healthy live) = filter (\<lambda>(k, e). \<not> sessionOver now e) live"
  unfolding sweep_def sweep_fold_sessions
  by (rule filter_cong) (force dest: eq_key_imp_eq_value)+

theorem sweeper_always_removes_witness:
  "snd (sweep 1000000 [''acme'' \<mapsto> offlineDb]
          [(''42:7'', expiredEntry), (''43:8'', freshEntry)])
     = [(''43:8'', freshEntry)]"
  using sweeper_always_removes [of "[(''42:7'', expiredEntry), (''43:8'', freshEntry)]"
      1000000 "[''acme'' \<mapsto> offlineDb]"]
  by (simp add: sessionOver_def expiredEntry_def freshEntry_def LIVE_GRACE_MS_def)

text \<open>
  C1 as stated fails: the entry is over, the database rejects the update (the stored
  document is unchanged), and the entry is gone from the registry.
\<close>

theorem sweeper_failed_update_counterexample:
  "sessionOver 1000000 expiredEntry \<and>
   fst (sweep 1000000 [''acme'' \<mapsto> offlineDb] [(makeLiveKey 42 7, expiredEntry)]) ''acme''
     = Some offlineDb \<and>
   snd (sweep 1000000 [''acme'' \<mapsto> offlineDb] [(makeLiveKey 42 7, expiredEntry)]) = []"
  by (simp add: sweep_def sweepEntry_def sessionOver_def expiredEntry_def LIVE_GRACE_MS_def
      offlineDb_def updateEmployee_def)

lemma map_of_updateDoc:
  "map_of (updateDoc docs docId f) i
     = (if i = docId then map_option f (map_of docs i) else map_of docs i)"
  by (induction docs) (auto simp add: updateDoc_def)

lemma updateEmployee_lookup:
  "updateEmployee db docId f = Some db' \<Longrightarrow>
     map_of (employee db') i
       = (if i = docId then map_option f (map_of (employee db) i) else map_of (employee db) i)"
  by (auto simp add: updateEmployee_def map_of_updateDoc split: if_splits option.splits)

lemma locationInvariant_finalize: "locationInvariant (finalizeLocation ts c)"
  by (simp add: locationInvariant_def finalizeLocation_def split: curloc.split)

lemma locationInvariant_ingested:
  "locationInvariant (Shared (currentLocationData now chat msg location live until))"
  by (simp add: locationInvariant_def currentLocationData_def)

lemma invariantAt_update:
  assumes "invariantAt healthy p i"
    and "healthy q = Some db"
    and "updateEmployee db docId f = Some db'"
    and "\<And>e. locationInvariant (currentLocation (f e))"
  shows "invariantAt (healthy(q \<mapsto> db')) p i"
  using assms updateEmployee_lookup [OF assms(3), of i]
  by (auto simp add: invariantAt_def split: option.splits if_splits)

lemma sweepEntry_invariant:
  "invariantAt h p i \<Longrightarrow> invariantAt (fst (sweepEntry now (h, r) ke)) p i"
  by (cases ke)
    (auto simp add: sweepEntry_def Let_def locationInvariant_finalize
      intro: invariantAt_update split: option.splits)

lemma sweep_fold_invariant:
  "invariantAt h p i \<Longrightarrow> invariantAt (fst (foldl (sweepEntry now) (h, r) xs)) p i"
proof (induction xs arbitrary: h r)
  case Nil
  then show ?case by simp
next
  case (Cons x xs)
  obtain h' r' where st: "sweepEntry now (h, r) x = (h', r')"
    by (cases "sweepEntry now (h, r) x")
  have "invariantAt h' p i"
    using sweepEntry_invariant [OF Cons.prems, of now r x] st by simp
  then show ?case
    using Cons.IH [of h' r'] by (simp add: st)
qed

text \<open>
  C9. Every write of \<open>currentLocation\<close> keeps the invariant that a live location has no
  \<open>endedAt\<close>: the record written by the ingestion path has \<open>endedAt = null\<close> whatever its
  live flag; a finalization by the sweeper leaves the live flag false wherever it sets
  \<open>endedAt\<close>; and a document that satisfies the invariant satisfies it after
  \<open>saveEmployeeLocation\<close> and after a tick of the sweeper.
\<close>

theorem currentLocation_writes_keep_invariant:
  "endedAt (currentLocationData now chat msg location isLiveNow until) = TNull \<and>
   (\<forall>l. finalizeLocation ts c = Shared l \<longrightarrow> \<not> isLive l \<and> endedAt l = Iso ts) \<and>
   (invariantAt healthy p i \<longrightarrow>
      invariantAt (fst (snd (saveEmployeeLocation now healthy live project empId chat msg
         location livePeriodSeconds isEdit))) p i \<and>
      invariantAt (fst (sweep now healthy live)) p i)"
proof (intro conjI impI allI)
  show "endedAt (currentLocationData now chat msg location isLiveNow until) = TNull"
    by (simp add: currentLocationData_def)
next
  fix l
  assume "finalizeLocation ts c = Shared l"
  then show "\<not> isLive l" and "endedAt l = Iso ts"
    by (auto simp add: finalizeLocation_def split: curloc.splits)
next
  assume inv: "invariantAt healthy p i"
  show "invariantAt (fst (snd (saveEmployeeLocation now healthy live project empId chat msg
        location livePeriodSeconds isEdit))) p i"
    using inv
    by (auto simp add: saveEmployeeLocation_def Let_def locationInvariant_ingested
        intro: invariantAt_update split: option.splits prod.splits)
  show "invariantAt (fst (sweep now healthy live)) p i"
    unfolding sweep_def by (rule sweep_fold_invariant [OF inv])
qed

text \<open>
  A live location in the store: it satisfies the invariant before, after a new live share
  is ingested and after the sweeper finalizes its session.
\<close>

theorem currentLocation_writes_keep_invariant_witness:
  "invariantAt [''acme'' \<mapsto> onlineDb] ''acme'' ''emp1'' \<and>
   finalizeLocation 1000000 (Shared liveOldInside)
     = Shared (liveOldInside\<lparr>isLive := False, endedAt := Iso 1000000\<rparr>) \<and>
   invariantAt (fst (snd (saveEmployeeLocation 1000000 [''acme'' \<mapsto> onlineDb]
      [(''42:7'', expiredEntry)] ''acme'' ''emp1'' 42 7 somePosition (Some 60) False)))
      ''acme'' ''emp1'' \<and>
   invariantAt (fst (sweep 1000000 [''acme'' \<mapsto> onlineDb] [(''42:7'', expiredEntry)]))
      ''acme'' ''emp1''"
  using currentLocation_writes_keep_invariant [of 1000000 42 7 somePosition True "Some 1060000"
      1000000 "Shared liveOldInside" "[''acme'' \<mapsto> onlineDb]" "''acme''" "''emp1''"
      "[(''42:7'', expiredEntry)]"
      "''acme''" "''emp1''" "Some 60" False]
  by (simp add: invariantAt_def onlineDb_def offlineDb_def someEmployee_def liveOldInside_def
      locationInvariant_def finalizeLocation_def)

subsection \<open>The attendance mutator\<close>

lemma day_in_month_range:
  fixes doy :: int
  shows "1 \<le> doy - (153 * ((5 * doy + 2) div 153) + 2) div 5 + 1 \<and>
         doy - (153 * ((5 * doy + 2) div 153) + 2) div 5 + 1 \<le> 31"
proof -
  define q where "q = (5 * doy + 2) div 153"
  define r where "r = (5 * doy + 2) mod 153"
  have r: "0 \<le> r" "r < 153" by (simp_all add: r_def)
  have "5 * doy + 2 = 153 * q + r" by (simp add: q_def r_def)
  then have "153 * q + 2 = (4 - r) + doy * 5" by simp
  then have "(153 * q + 2) div 5 = ((4 - r) + doy * 5) div 5" by simp
  also have "\<dots> = (4 - r) div 5 + doy" by simp
  finally have eq: "(153 * q + 2) div 5 = (4 - r) div 5 + doy" .
  have "- 30 \<le> (4 - r) div 5" "(4 - r) div 5 \<le> 0" using r by linarith+
  then show ?thesis unfolding q_def [symmetric] eq by linarith
qed

lemma dayOfMonth_range: "1 \<le> dayOfMonth ms \<and> dayOfMonth ms \<le> 31"
  unfolding dayOfMonth_def Let_def by (rule day_in_month_range)

lemma jsIndex_jsAssign_same:
  "0 \<le> i \<Longrightarrow> jsIndex (jsAssign xs (Num i) v) (Num i) = Some v"
  by (auto simp add: jsIndex_def jsAssign_def nth_append)


lemma storedAttendance_after_update:
  assumes "healthyDbs project = Some db"
    and "updateAttendance db docId f = Some db'"
  shows "storedAttendance (healthyDbs(project \<mapsto> db')) project docId
           = map_option f (map_of (attendance db) docId)"
  using assms
  by (auto simp add: storedAttendance_def updateAttendance_def map_of_updateDoc
      split: if_splits option.splits)

lemma performAutoClockOut_Success:
  assumes "performAutoClockOut rt now ids att project healthyDbs tz = (Success, dbs')"
  obtains db u old where "healthyDbs project = Some db"
    and "buildAutoClockOut rt now ids att tz = Some u"
    and "map_of (attendance db) (att_id att) = Some old"
    and "storedAttendance dbs' project (att_id att) = Some (applyUpdate u old)"
proof -
  from assms obtain db where db: "healthyDbs project = Some db"
    by (auto simp add: performAutoClockOut_def split: option.splits)
  from assms db obtain u where u: "buildAutoClockOut rt now ids att tz = Some u"
    by (auto simp add: performAutoClockOut_def split: option.splits)
  from assms db u obtain db' where db': "updateAttendance db (att_id att) (applyUpdate u) = Some db'"
    and dbs': "dbs' = healthyDbs(project \<mapsto> db')"
    by (auto simp add: performAutoClockOut_def split: option.splits)
  from db' obtain old where old: "map_of (attendance db) (att_id att) = Some old"
    by (auto simp add: updateAttendance_def split: if_splits option.splits)
  have "storedAttendance dbs' project (att_id att) = Some (applyUpdate u old)"
    using storedAttendance_after_update [of healthyDbs project db "att_id att" "applyUpdate u" db']
      db db' old dbs' by simp
  with db u old show ?thesis by (rule that)
qed


text \<open>A clock-out at 00:00:15 on the 15th, 615 seconds after the clock-in.\<close>

lemma dayOfMonth_example: "dayOfMonth 1757893800000 = 14"
  by code_simp

text \<open>
  C5. After a successful auto-clock-out of a document whose \<open>lastClockInTimestamp\<close> is the
  instant \<open>t\<close>, the stored document has \<open>lastClockInTimestamp = null\<close>; its \<open>values\<close> is an
  array whose day at index \<open>dayOfMonth t - 1\<close> ends its \<open>workedHours\<close> with a Clock-Out entry
  (stamped with the clock-out instant), has \<open>value = "A"\<close> and \<open>status = "Submitted"\<close>; and
  \<open>monthlyWorkedHours\<close> is the document's former value plus the hours between \<open>t\<close> and the
  clock-out instant, as a fraction.
\<close>

theorem autoClockOut_state:
  assumes "lastClockInTimestamp att = Iso t"
    and "performAutoClockOut rt now ids att project healthyDbs tz = (Success, dbs')"
  shows "\<exists>doc vals d.
           storedAttendance dbs' project (att_id att) = Some doc \<and>
           lastClockInTimestamp doc = TNull \<and>
           dayValues doc = Arr vals \<and>
           jsIndex vals (Num (dayOfMonth t - 1)) = Some d \<and>
           workedHours d \<noteq> [] \<and>
           wh_type (last (workedHours d)) = ClockOut \<and>
           wh_timestamp (last (workedHours d)) = now \<and>
           dayValue d = Some ''A'' \<and>
           status d = ''Submitted'' \<and>
           monthlyWorkedHours doc
             = num_add (monthlyWorkedHours att) (Num (real_of_int (now - t) / 3600000))"
proof -
  from assms(2) obtain db u old where u: "buildAutoClockOut rt now ids att tz = Some u"
    and stored: "storedAttendance dbs' project (att_id att) = Some (applyUpdate u old)"
    by (rule performAutoClockOut_Success)
  have idx: "0 \<le> dayOfMonth t - 1" using dayOfMonth_range [of t] by simp
  show ?thesis
    using u assms(1) stored
    by (auto simp add: buildAutoClockOut_def Let_def date_def diff_hours_float_def applyUpdate_def
        jsIndex_jsAssign_same [OF idx] split: option.splits)
qed



theorem autoClockOut_state_witness:
  "lastClockInTimestamp clockedIn = Iso 1757893800000 \<and>
   fst (performAutoClockOut rt0 1757894415000 ids0 clockedIn ''acme'' [''acme'' \<mapsto> attDb] None) = Success \<and>
   (\<exists>doc vals d.
      storedAttendance (snd (performAutoClockOut rt0 1757894415000 ids0 clockedIn ''acme''
         [''acme'' \<mapsto> attDb] None)) ''acme'' ''a1'' = Some doc \<and>
      lastClockInTimestamp doc = TNull \<and>
      dayValues doc = Arr vals \<and>
      jsIndex vals (Num 13) = Some d \<and>
      workedHours d \<noteq> [] \<and>
      wh_type (last (workedHours d)) = ClockOut \<and>
      wh_timestamp (last (workedHours d)) = 1757894415000 \<and>
      dayValue d = Some ''A'' \<and>
      status d = ''Submitted'' \<and>
      monthlyWorkedHours doc = Num (100 + 615000 / 3600000))"
proof -
  have s: "fst (performAutoClockOut rt0 1757894415000 ids0 clockedIn ''acme''
      [''acme'' \<mapsto> attDb] None) = Success"
    by (simp add: performAutoClockOut_def buildAutoClockOut_def rt0_def formatHour_def
        attDb_def clockedIn_def updateAttendance_def Let_def)
  have ok: "performAutoClockOut rt0 1757894415000 ids0 clockedIn ''acme'' [''acme'' \<mapsto> attDb] None
      = (Success, snd (performAutoClockOut rt0 1757894415000 ids0 clockedIn ''acme''
         [''acme'' \<mapsto> attDb] None))"
    using s by (metis prod.collapse)
  have t: "lastClockInTimestamp clockedIn = Iso 1757893800000"
    by (simp add: clockedIn_def)
  have a: "att_id clockedIn = ''a1''" "monthlyWorkedHours clockedIn = Num 100"
    by (simp_all add: clockedIn_def)
  show ?thesis
    using autoClockOut_state [OF t ok] s t
    by (simp add: dayOfMonth_example a)
qed

subsection \<open>The monitor's decision\<close>















subsection \<open>The dedup check\<close>

lemma head_of_descending_sort:
  assumes "sort_key (\<lambda>w. - f w) xs = y # ys"
  shows "y \<in> set xs \<and> (\<forall>x \<in> set xs. (f x :: int) \<le> f y)"
proof -
  have "set (y # ys) = set xs"
    using assms set_sort [of "\<lambda>w. - f w" xs] by simp
  moreover have "sorted (map (\<lambda>w. - f w) (y # ys))"
    using assms sorted_sort_key [of "\<lambda>w. - f w" xs] by simp
  ultimately show ?thesis by auto
qed

lemma absFloor_minutes: "d < 5 * 60000 \<Longrightarrow> absFloor d 60000 < 5"
  by (auto simp add: absFloor_def)

lemma recentlyClockedOut_from_latest:
  assumes d: "rawIndex (dayValues att) (clockInDayIndexOf att) = Some d"
    and wh: "wh \<in> set (workedHours d)" "wh_type wh = ClockOut"
    and latest: "\<forall>w \<in> set (workedHours d). wh_type w = ClockOut \<longrightarrow> wh_timestamp w \<le> wh_timestamp wh"
    and young: "now - wh_timestamp wh < CHECK_INTERVAL_MINUTES * 60000"
  shows "recentlyClockedOut now att"
proof -
  let ?outs = "filter (\<lambda>w. wh_type w = ClockOut) (workedHours d)"
  have mem: "wh \<in> set ?outs" using wh by simp
  then have "sort_key (\<lambda>w. - wh_timestamp w) ?outs \<noteq> []"
    by (metis empty_iff empty_set set_sort)
  then obtain y ys where y: "sort_key (\<lambda>w. - wh_timestamp w) ?outs = y # ys"
    by (cases "sort_key (\<lambda>w. - wh_timestamp w) ?outs") auto
  from head_of_descending_sort [OF y] mem
  have "y \<in> set ?outs" and "wh_timestamp wh \<le> wh_timestamp y" by auto
  moreover from \<open>y \<in> set ?outs\<close> latest have "wh_timestamp y \<le> wh_timestamp wh" by simp
  ultimately have eq: "wh_timestamp y = wh_timestamp wh" by simp
  have "lastClockOutOf att = Some y"
    by (simp add: lastClockOutOf_def d y)
  then show ?thesis
    using young absFloor_minutes [of "now - wh_timestamp wh"]
    by (simp add: recentlyClockedOut_def diff_minute_def diff_unit_def eq CHECK_INTERVAL_MINUTES_def)
qed

text \<open>
  C6, as the code has it. If the most recent Clock-Out entry on the clock-in's day is
  younger than \<open>CHECK_INTERVAL_MINUTES\<close>, the monitor skips the employee: it returns null
  and writes nothing. The check reads the day of the current clock-in only.
\<close>

theorem dedup_skips_recent_clock_out:
  assumes "rawIndex (dayValues att) (clockInDayIndexOf att) = Some d"
    and "wh \<in> set (workedHours d)" and "wh_type wh = ClockOut"
    and "\<forall>w \<in> set (workedHours d). wh_type w = ClockOut \<longrightarrow> wh_timestamp w \<le> wh_timestamp wh"
    and "now - wh_timestamp wh < CHECK_INTERVAL_MINUTES * 60000"
  shows "checkAndAutoClockOut rt now ids emp att project healthyDbs = (None, healthyDbs)"
proof -
  have "recentlyClockedOut now att"
    using assms by (rule recentlyClockedOut_from_latest)
  then show ?thesis
    by (simp add: checkAndAutoClockOut_def Let_def split: option.splits)
qed



text \<open>At 23:52, with a Clock-Out entry of 23:49 on the day of the clock-in.\<close>

theorem dedup_skips_recent_clock_out_witness:
  "rawIndex (dayValues backAgain) (clockInDayIndexOf backAgain) = Some day14b \<and>
   1757893920000 - 1757893740000 < CHECK_INTERVAL_MINUTES * 60000 \<and>
   checkAndAutoClockOut rt0 1757893920000 ids0 endedEmployee backAgain ''acme''
      [''acme'' \<mapsto> attDb] = (None, [''acme'' \<mapsto> attDb])"
proof -
  have d: "rawIndex (dayValues backAgain) (clockInDayIndexOf backAgain) = Some day14b"
    by code_simp
  have young: "1757893920000 - wh_timestamp
      \<lparr>wh_id = ''w1'', wh_timestamp = 1757893740000, wh_type = ClockOut, wh_hour = ''2:49 AM''\<rparr>
      < CHECK_INTERVAL_MINUTES * 60000"
    by (simp add: CHECK_INTERVAL_MINUTES_def)
  show ?thesis
    using d young
      dedup_skips_recent_clock_out [OF d, of
        "\<lparr>wh_id = ''w1'', wh_timestamp = 1757893740000, wh_type = ClockOut, wh_hour = ''2:49 AM''\<rparr>"
        1757893920000 rt0 ids0 endedEmployee "''acme''" "[''acme'' \<mapsto> attDb]"]
    by (simp add: day14b_def)
qed

text \<open>
  C6 as stated fails: two auto-clock-outs are written to one attendance document 270
  seconds apart. The first is filed under the 14th, the day of the first clock-in; the
  employee clocks in again after midnight; the dedup check of the second tick reads the
  15th, finds no Clock-Out entry there, and the second clock-out is written.
\<close>

theorem two_clock_outs_within_interval_counterexample:
  "storedAttendance (snd (checkAndAutoClockOut rt0 1757894415000 ids0 endedEmployee clockedIn
      ''acme'' [''acme'' \<mapsto> attDb])) ''acme'' ''a1'' = Some docA \<and>
   clockInOrOut rt0 1757894460000 ids1 ClockIn docA (Num 8) (Some 80) (Some 50) None
     = Handed docB \<and>
   map_option clockOutStamps
     (storedAttendance (snd (checkAndAutoClockOut rt0 1757894685000 ids2 endedAgain docB
        ''acme'' [''acme'' \<mapsto> dbB])) ''acme'' ''a1'')
     = Some [1757894415000, 1757894685000] \<and>
   (1757894685000 :: int) - 1757894415000 < CHECK_INTERVAL_MINUTES * 60000"
proof (intro conjI)
  show "storedAttendance (snd (checkAndAutoClockOut rt0 1757894415000 ids0 endedEmployee clockedIn
      ''acme'' [''acme'' \<mapsto> attDb])) ''acme'' ''a1'' = Some docA"
    by code_simp
  show "clockInOrOut rt0 1757894460000 ids1 ClockIn docA (Num 8) (Some 80) (Some 50) None
     = Handed docB"
    by code_simp
  show "map_option clockOutStamps
     (storedAttendance (snd (checkAndAutoClockOut rt0 1757894685000 ids2 endedAgain docB
        ''acme'' [''acme'' \<mapsto> dbB])) ''acme'' ''a1'')
     = Some [1757894415000, 1757894685000]"
    by code_simp
  show "(1757894685000 :: int) - 1757894415000 < CHECK_INTERVAL_MINUTES * 60000"
    by (simp add: CHECK_INTERVAL_MINUTES_def)
qed

subsection \<open>The shape of the written values\<close>



















subsection \<open>Clocking out without a clock-in\<close>

text \<open>
  \<open>performAutoClockOut\<close> has no test of \<open>lastClockInTimestamp\<close>: on a document that is not
  clocked in it succeeds whenever the store accepts the update, and the hours become
  \<open>NaN\<close>.
\<close>

lemma auto_path_has_no_clockin_guard:
  assumes "lastClockInTimestamp att = TNull"
    and "healthyDbs project = Some db" and "\<not> offline db"
    and "map_of (attendance db) (att_id att) = Some old"
    and "formatHour rt now tz = Some h"
  shows "fst (performAutoClockOut rt now ids att project healthyDbs tz) = Success \<and>
         map_option monthlyWorkedHours
           (storedAttendance (snd (performAutoClockOut rt now ids att project healthyDbs tz))
              project (att_id att)) = Some NaN"
  using assms
  by (simp add: performAutoClockOut_def buildAutoClockOut_def updateAttendance_def Let_def
      storedAttendance_def map_of_updateDoc applyUpdate_def diff_hours_float_def)

text \<open>
  What a call of \<open>checkAndAutoClockOut\<close> can change in the store: nothing, or the one
  attendance document it was given. The scan hands over clocked-in documents only.
\<close>

lemma performAutoClockOut_effect:
  "snd (performAutoClockOut rt now ids att project healthyDbs tz) = healthyDbs \<or>
   (\<exists>db db' f. healthyDbs project = Some db \<and> updateAttendance db (att_id att) f = Some db' \<and>
      snd (performAutoClockOut rt now ids att project healthyDbs tz) = healthyDbs(project \<mapsto> db'))"
  by (auto simp add: performAutoClockOut_def split: option.splits)

lemma checkAndAutoClockOut_effect:
  "snd (checkAndAutoClockOut rt now ids emp att project healthyDbs) = healthyDbs \<or>
   (\<exists>db db' f. healthyDbs project = Some db \<and> updateAttendance db (att_id att) f = Some db' \<and>
      snd (checkAndAutoClockOut rt now ids emp att project healthyDbs) = healthyDbs(project \<mapsto> db'))"
proof -
  have "snd (clockOutAndReport rt now ids emp att project healthyDbs v)
          = snd (performAutoClockOut rt now ids att project healthyDbs (timezone emp))" for v
    by (simp add: clockOutAndReport_def split: prod.splits clockout_result.splits)
  then show ?thesis
    using performAutoClockOut_effect [of rt now ids att project healthyDbs "timezone emp"]
    by (auto simp add: checkAndAutoClockOut_def Let_def split: option.splits)
qed

lemma storedAttendance_elsewhere:
  assumes "healthyDbs project = Some db" and "updateAttendance db docId f = Some db'"
    and "(p, i) \<noteq> (project, docId)"
  shows "storedAttendance (healthyDbs(project \<mapsto> db')) p i = storedAttendance healthyDbs p i"
  using assms
  by (auto simp add: storedAttendance_def updateAttendance_def map_of_updateDoc
      split: if_splits option.splits)

lemma checkAndAutoClockOut_elsewhere:
  assumes "(p, i) \<noteq> (project, att_id att)"
  shows "storedAttendance (snd (checkAndAutoClockOut rt now ids emp att project healthyDbs)) p i
           = storedAttendance healthyDbs p i"
  using checkAndAutoClockOut_effect [of rt now ids emp att project healthyDbs] assms
  by (auto simp add: storedAttendance_elsewhere)

lemma checkAll_elsewhere:
  assumes "\<forall>c \<in> set cs. (p, i) \<noteq> (c_projectName c, att_id (c_attendance c))"
  shows "storedAttendance (snd (checkAll rt now ids n cs healthyDbs)) p i
           = storedAttendance healthyDbs p i"
  using assms
proof (induction cs arbitrary: n healthyDbs)
  case Nil
  then show ?case by simp
next
  case (Cons c cs)
  obtain r dbs' where step:
    "checkAndAutoClockOut rt now (ids n) (c_employee c) (c_attendance c) (c_projectName c)
       healthyDbs = (r, dbs')"
    by (cases "checkAndAutoClockOut rt now (ids n) (c_employee c) (c_attendance c)
       (c_projectName c) healthyDbs")
  have "storedAttendance dbs' p i = storedAttendance healthyDbs p i"
    using checkAndAutoClockOut_elsewhere [of p i "c_projectName c" "c_attendance c" rt now
        "ids n" "c_employee c" healthyDbs] Cons.prems step
    by simp
  moreover have "storedAttendance (snd (checkAll rt now ids (Suc n) cs dbs')) p i
      = storedAttendance dbs' p i"
    using Cons.prems by (intro Cons.IH) simp
  ultimately show ?case
    by (cases "checkAll rt now ids (Suc n) cs dbs'") (simp add: step)
qed

lemma scanned_is_clocked_in:
  assumes "c \<in> set (findClockedInEmployees now projects healthyDbs)"
  shows "\<exists>db docId doc. healthyDbs (c_projectName c) = Some db \<and>
           (docId, doc) \<in> set (attendance db) \<and> lastClockInTimestamp doc \<noteq> TNull \<and>
           c_attendance c = doc\<lparr>att_id := docId\<rparr>"
proof -
  from assms obtain project where
    "c \<in> set (case healthyDbs project of None \<Rightarrow> [] | Some db \<Rightarrow> clockedInOf now project db)"
    by (auto simp add: findClockedInEmployees_def)
  then obtain db where db: "healthyDbs project = Some db"
    and c: "c \<in> set (clockedInOf now project db)"
    by (cases "healthyDbs project") auto
  from c obtain docId doc e where doc: "(docId, doc) \<in> set (attendance db)"
    "lastClockInTimestamp doc \<noteq> TNull"
    and ceq: "c = \<lparr>c_employee = e, c_attendance = doc\<lparr>att_id := docId\<rparr>,
                  c_projectName = project\<rparr>"
    by (auto simp add: clockedInOf_def split: if_splits option.splits prod.splits)
  show ?thesis
    using db doc
    by (intro exI [of _ db] exI [of _ docId] exI [of _ doc]) (simp add: ceq)
qed


lemma tick_skips_not_clocked_in:
  assumes stored: "storedAttendance healthyDbs project docId = Some x"
    and null: "lastClockInTimestamp x = TNull"
    and keys: "\<forall>db. healthyDbs project = Some db \<longrightarrow> distinct (map fst (attendance db))"
  shows "storedAttendance (snd (runLocationCheck rt now nids projects healthyDbs)) project docId
           = Some x"
proof -
  have "(project, docId) \<noteq> (c_projectName c, att_id (c_attendance c))"
    if c: "c \<in> set (findClockedInEmployees now projects healthyDbs)" for c
  proof
    assume eq: "(project, docId) = (c_projectName c, att_id (c_attendance c))"
    from scanned_is_clocked_in [OF c] obtain db k doc where
      db: "healthyDbs (c_projectName c) = Some db" and
      doc: "(k, doc) \<in> set (attendance db)" "lastClockInTimestamp doc \<noteq> TNull"
        "c_attendance c = doc\<lparr>att_id := k\<rparr>"
      by blast
    from eq doc(3) have k: "k = docId" by simp
    from eq db keys have "distinct (map fst (attendance db))" by simp
    with doc(1) k have "map_of (attendance db) docId = Some doc" by simp
    with stored eq db have "doc = x" by (simp add: storedAttendance_def)
    with doc(2) null show False by simp
  qed
  then show ?thesis
    using checkAll_elsewhere [of "findClockedInEmployees now projects healthyDbs" project docId
        rt now nids 0 healthyDbs] stored
    by (simp add: runLocationCheck_def)
qed


text \<open>
  C2, as the code has it. For an attendance document whose \<open>lastClockInTimestamp\<close> is null
  (or empty), the human clock-out, \<open>clockInOrOut\<close> with a shift set up, returns the error
  "Cannot clock out without a previous clock-in." and hands nothing to the store. The
  monitor's scan selects no document whose \<open>lastClockInTimestamp\<close> is null, and a tick of
  the monitor leaves such a stored document as it is (document ids being distinct).
\<close>

theorem not_clocked_in_is_left_alone:
  "(\<not> truthy (lastClockInTimestamp att) \<and> dailyWorkingHour \<noteq> Num 0
      \<longrightarrow> clockInOrOut rt now ids ClockOut att dailyWorkingHour p hp tz
            = Refused ''Cannot clock out without a previous clock-in.'') \<and>
   (\<forall>c \<in> set (findClockedInEmployees now projects healthyDbs).
      lastClockInTimestamp (c_attendance c) \<noteq> TNull) \<and>
   (storedAttendance healthyDbs project docId = Some x \<and> lastClockInTimestamp x = TNull \<and>
      (\<forall>db. healthyDbs project = Some db \<longrightarrow> distinct (map fst (attendance db)))
      \<longrightarrow> storedAttendance (snd (runLocationCheck rt now nids projects healthyDbs)) project docId
            = Some x)"
proof (intro conjI impI ballI)
  assume "\<not> truthy (lastClockInTimestamp att) \<and> dailyWorkingHour \<noteq> Num 0"
  then show "clockInOrOut rt now ids ClockOut att dailyWorkingHour p hp tz
      = Refused ''Cannot clock out without a previous clock-in.''"
    by (simp add: clockInOrOut_def Let_def)
next
  fix c
  assume "c \<in> set (findClockedInEmployees now projects healthyDbs)"
  from scanned_is_clocked_in [OF this]
  show "lastClockInTimestamp (c_attendance c) \<noteq> TNull" by auto
next
  assume "storedAttendance healthyDbs project docId = Some x \<and> lastClockInTimestamp x = TNull \<and>
      (\<forall>db. healthyDbs project = Some db \<longrightarrow> distinct (map fst (attendance db)))"
  then show "storedAttendance (snd (runLocationCheck rt now nids projects healthyDbs)) project docId
      = Some x"
    by (intro tick_skips_not_clocked_in) auto
qed

text \<open>
  One tick at 00:00:15 over a clocked-in document and one that is not: the first is
  clocked out, the second is neither scanned nor changed.
\<close>

theorem not_clocked_in_is_left_alone_witness:
  "clockInOrOut rt0 1757894415000 ids0 ClockOut idleDoc (Num 8) (Some 80) (Some 50) None
     = Refused ''Cannot clock out without a previous clock-in.'' \<and>
   map c_attendance (findClockedInEmployees 1757894415000 [''acme''] [''acme'' \<mapsto> twoDb])
     = [clockedIn] \<and>
   storedAttendance [''acme'' \<mapsto> twoDb] ''acme'' ''a2'' = Some idleDoc \<and>
   lastClockInTimestamp idleDoc = TNull \<and>
   storedAttendance (snd (runLocationCheck rt0 1757894415000 sameIds [''acme'']
      [''acme'' \<mapsto> twoDb])) ''acme'' ''a2'' = Some idleDoc \<and>
   storedAttendance (snd (runLocationCheck rt0 1757894415000 sameIds [''acme'']
      [''acme'' \<mapsto> twoDb])) ''acme'' ''a1'' = Some docA"
proof -
  have facts: "\<not> truthy (lastClockInTimestamp idleDoc)" "lastClockInTimestamp idleDoc = TNull"
    "storedAttendance [''acme'' \<mapsto> twoDb] ''acme'' ''a2'' = Some idleDoc"
    "attendance twoDb = [(''a1'', clockedIn), (''a2'', idleDoc)]"
    by (simp_all add: idleDoc_def notClockedIn_def twoDb_def storedAttendance_def)
  have scan: "map c_attendance (findClockedInEmployees 1757894415000 [''acme'']
      [''acme'' \<mapsto> twoDb]) = [clockedIn]"
    by code_simp
  have a1: "storedAttendance (snd (runLocationCheck rt0 1757894415000 sameIds [''acme'']
      [''acme'' \<mapsto> twoDb])) ''acme'' ''a1'' = Some docA"
    by code_simp
  show ?thesis
    using not_clocked_in_is_left_alone [where att = idleDoc and dailyWorkingHour = "Num 8"
        and rt = rt0 and now = 1757894415000 and ids = ids0 and p = "Some 80" and hp = "Some 50"
        and tz = None and projects = "[''acme'']" and healthyDbs = "[''acme'' \<mapsto> twoDb]"
        and project = "''acme''" and docId = "''a2''" and x = idleDoc and nids = sameIds]
    by (simp add: facts scan a1)
qed


text \<open>
  C2 as stated fails: given a document whose \<open>lastClockInTimestamp\<close> is null, the
  auto-clock-out operation returns success, not an error, and writes to the document:
  \<open>monthlyWorkedHours\<close>, 100 before, is \<open>NaN\<close> afterwards and \<open>lastChanged\<close> is the instant
  of the call.
\<close>

theorem autoClockOut_without_clockin_counterexample:
  "lastClockInTimestamp notClockedIn = TNull \<and>
   fst (performAutoClockOut rt0 1757893920000 ids0 notClockedIn ''acme''
      [''acme'' \<mapsto> idleDb] None) = Success \<and>
   map_option monthlyWorkedHours (storedAttendance (snd (performAutoClockOut rt0 1757893920000
      ids0 notClockedIn ''acme'' [''acme'' \<mapsto> idleDb] None)) ''acme'' ''a1'') = Some NaN \<and>
   map_option att_lastChanged (storedAttendance (snd (performAutoClockOut rt0 1757893920000
      ids0 notClockedIn ''acme'' [''acme'' \<mapsto> idleDb] None)) ''acme'' ''a1'')
     = Some (Iso 1757893920000) \<and>
   map_option monthlyWorkedHours (storedAttendance [''acme'' \<mapsto> idleDb] ''acme'' ''a1'')
     = Some (Num 100)"
  by (intro conjI; code_simp)

end
